theory Spec2Isabelle
  imports Main
begin

section \<open>Zero values\<close>

text \<open>
  Go gives every type a zero value: an unset struct field and \<^verbatim>\<open>var zero T\<close> hold it.
  The containers of gofp are structs whose unused side keeps that zero value, so the
  embedding needs it for every type parameter. The class \<open>default\<close> of HOL supplies one
  constant per type; the instances below fix it to Go's zero value: \<open>0\<close> for the integer
  types, \<open>false\<close> for bool, the nil slice (and the empty string) for slices and strings.
  A slice is modelled as a list, so the nil slice and the empty slice are both \<open>[]\<close>.
  The zero value of a function type is nil; the embedding has no nil function and uses
  the function that returns the zero value. No operation of the library calls the
  function stored in the unused side of a container.
\<close>

instantiation int :: default
begin
definition default_int :: int where "default_int = 0"
instance ..
end

instantiation nat :: default
begin
definition default_nat :: nat where "default_nat = 0"
instance ..
end

instantiation bool :: default
begin
definition default_bool :: bool where "default_bool = False"
instance ..
end

instantiation list :: (type) default
begin
definition default_list :: "'a list" where "default_list = []"
instance ..
end

instantiation "fun" :: (type, default) default
begin
definition default_fun :: "'a \<Rightarrow> 'b" where "default_fun = (\<lambda>_. default)"
instance ..
end

section \<open>Either (src/unnamed/part_004, package gofp)\<close>

text \<open>
  \<^verbatim>\<open>type Either[T, U any] struct { left T; right U; isLeft bool }\<close>
\<close>

record ('t, 'u) Either =
  left :: 't
  right :: 'u
  isLeft :: bool

definition Left :: "'t \<Rightarrow> ('t, 'u::default) Either" where
  "Left v = \<lparr>left = v, right = default, isLeft = True\<rparr>"

definition Right :: "'u \<Rightarrow> ('t::default, 'u) Either" where
  "Right v = \<lparr>left = default, right = v, isLeft = False\<rparr>"

definition EitherMap :: "('t::default, 'u) Either \<Rightarrow> ('u \<Rightarrow> 'v::default) \<Rightarrow> ('t, 'v) Either" where
  "EitherMap e fn = (if isLeft e then Left (left e) else Right (fn (right e)))"

definition EitherApply ::
  "('t::default, 'u) Either \<Rightarrow> ('t, 'u \<Rightarrow> 'v) Either \<Rightarrow> ('t, 'v::default) Either" where
  "EitherApply e efn =
     (if isLeft efn then Left (left efn)
      else if isLeft e then Left (left e)
      else Right ((right efn) (right e)))"

definition EitherApplyMap ::
  "('t::default, 'u) Either \<Rightarrow> ('t, 'u \<Rightarrow> 'v) Either \<Rightarrow> ('t \<Rightarrow> 't \<Rightarrow> 't)
     \<Rightarrow> ('t, 'v::default) Either" where
  "EitherApplyMap e efn combine =
     (if isLeft efn \<and> isLeft e then Left (combine (left efn) (left e))
      else if isLeft efn then Left (left efn)
      else if isLeft e then Left (left e)
      else Right ((right efn) (right e)))"

definition EitherFlatMap ::
  "('t, 'u) Either \<Rightarrow> ('u \<Rightarrow> ('t, 'v::default) Either) \<Rightarrow> ('t, 'v) Either" where
  "EitherFlatMap e fn = (if isLeft e then Left (left e) else fn (right e))"

text \<open>\<^verbatim>\<open>TryUnwrap\<close> and \<^verbatim>\<open>TryUnwrapLeft\<close> return Go's pair (value, ok).\<close>

definition Either_TryUnwrap :: "('t, 'u::default) Either \<Rightarrow> 'u \<times> bool" where
  "Either_TryUnwrap e = (if isLeft e then (default, False) else (right e, True))"

definition Either_TryUnwrapLeft :: "('t::default, 'u) Either \<Rightarrow> 't \<times> bool" where
  "Either_TryUnwrapLeft e = (if \<not> isLeft e then (default, False) else (left e, True))"

section \<open>Panics\<close>

text \<open>
  A Go \<^verbatim>\<open>panic(v)\<close> unwinds the stack with the value \<open>v\<close>. It is a branch of its own in
  the result of every operation that can panic: \<open>Inl (Panic v)\<close>, with \<open>Inr\<close> for a normal
  return. The library contains no \<^verbatim>\<open>recover\<close>.
\<close>

datatype panic = Panic string

section \<open>Option (option.go)\<close>

text \<open>
  \<^verbatim>\<open>type Option[T any] struct { value T; valid bool }\<close>. The fields are \<open>opt_value\<close> and
  \<open>opt_valid\<close> here. \<^verbatim>\<open>Some\<close> and \<^verbatim>\<open>None\<close> are \<open>OptionSome\<close> and \<open>OptionNone\<close>.
\<close>

record 't Option =
  opt_value :: 't
  opt_valid :: bool

definition OptionSome :: "'t \<Rightarrow> 't Option" where
  "OptionSome v = \<lparr>opt_value = v, opt_valid = True\<rparr>"

definition OptionNone :: "('t::default) Option" where
  "OptionNone = \<lparr>opt_value = default, opt_valid = False\<rparr>"

definition OptionMap :: "'t Option \<Rightarrow> ('t \<Rightarrow> 'u) \<Rightarrow> ('u::default) Option" where
  "OptionMap opt fn = (if \<not> opt_valid opt then OptionNone else OptionSome (fn (opt_value opt)))"

definition OptionApply :: "'t Option \<Rightarrow> ('t \<Rightarrow> 'u) Option \<Rightarrow> ('u::default) Option" where
  "OptionApply opt fn =
     (if \<not> opt_valid opt \<or> \<not> opt_valid fn then OptionNone
      else OptionSome ((opt_value fn) (opt_value opt)))"

definition OptionFlatMap :: "'t Option \<Rightarrow> ('t \<Rightarrow> 'u Option) \<Rightarrow> ('u::default) Option" where
  "OptionFlatMap opt fn = (if \<not> opt_valid opt then OptionNone else fn (opt_value opt))"

text \<open>
  The loop of \<^verbatim>\<open>OptionSequence\<close> runs over the slice from left to right, updating
  \<^verbatim>\<open>values\<close>: a left fold. \<^verbatim>\<open>append(vs, v)\<close> adds one element at the end.
\<close>

definition OptionSequence :: "'t Option list \<Rightarrow> ('t list) Option" where
  "OptionSequence options =
     foldl (\<lambda>values opt. OptionFlatMap values (\<lambda>vs. OptionMap opt (\<lambda>v. vs @ [v])))
       (OptionSome []) options"

definition Option_TryUnwrap :: "('t::default) Option \<Rightarrow> 't \<times> bool" where
  "Option_TryUnwrap opt = (if \<not> opt_valid opt then (default, False) else (opt_value opt, True))"

definition Option_Unwrap :: "'t Option \<Rightarrow> panic + 't" where
  "Option_Unwrap opt =
     (if \<not> opt_valid opt then Inl (Panic ''unwrapping None'') else Inr (opt_value opt))"

section \<open>Result (result.go)\<close>

text \<open>
  Go's \<^verbatim>\<open>error\<close> is an interface value: nil, or a value with a method \<^verbatim>\<open>Error() string\<close>.
  It is \<open>error option\<close> here, \<open>None\<close> for nil. The two kinds of error value the library and
  its tests build are \<^verbatim>\<open>errors.New(s)\<close> (\<open>errorString s\<close>) and the value of
  \<^verbatim>\<open>fmt.Errorf\<close> with one \<^verbatim>\<open>%w\<close> operand (\<open>wrapError msg err\<close>: the formatted message and
  the wrapped error).
\<close>

datatype error = errorString string | wrapError string error

fun Error :: "error \<Rightarrow> string" where
  "Error (errorString s) = s"
| "Error (wrapError msg err) = msg"

text \<open>
  \<^verbatim>\<open>fmt.Errorf("%s: %w", msg, err)\<close> of the Go standard library, the one call
  \<^verbatim>\<open>Wrap\<close> makes: \<^verbatim>\<open>%w\<close> formats a non-nil error as its \<^verbatim>\<open>Error()\<close> text and wraps it.
  A nil operand is no error: it is formatted as a bad verb and nothing is wrapped.
\<close>

definition Errorf_wrap :: "string \<Rightarrow> error option \<Rightarrow> error" where
  "Errorf_wrap msg err =
     (case err of
        Some e \<Rightarrow> wrapError (msg @ '': '' @ Error e) e
      | None \<Rightarrow> errorString (msg @ '': %!w(<nil>)''))"

text \<open>
  The call stack. \<^verbatim>\<open>callers()\<close> asks the Go runtime for the active call chain
  (\<^verbatim>\<open>runtime.Callers(pcSkip, pc)\<close>, then \<^verbatim>\<open>runtime.CallersFrames\<close>) and formats it. A
  frame is what the runtime reports of one call: file, line and function. The chain is a
  list of frames, innermost first. With \<^verbatim>\<open>pcSkip = 3\<close> the runtime leaves out its own
  frame, the frame of \<^verbatim>\<open>callers\<close> and the frame of the constructor that called it, so
  the chain starts at the caller of that constructor: this is the argument \<open>stk\<close> of every
  operation below that builds a failed Result or calls a function that may build one.
  The buffer \<^verbatim>\<open>pc\<close> holds \<^verbatim>\<open>pcCount\<close> entries, so at most that many frames are read.
\<close>

record Frame =
  File :: string
  Line :: nat
  Function :: string

definition pcCount :: nat where
  "pcCount = 30"

text \<open>The verb \<^verbatim>\<open>%d\<close> of \<^verbatim>\<open>fmt\<close> on a line number: its decimal digits.\<close>

function decimal :: "nat \<Rightarrow> string" where
  "decimal n =
     (if n < 10 then [''0123456789'' ! n]
      else decimal (n div 10) @ [''0123456789'' ! (n mod 10)])"
  by pat_completeness auto
termination
  by (relation "measure (\<lambda>n. n)") auto

declare decimal.simps [simp del]

text \<open>
  The loop of \<^verbatim>\<open>callers\<close>: one line \<^verbatim>\<open>"%s:%d %s\n"\<close> for each frame, stopping after the
  frame of \<^verbatim>\<open>main.main\<close> or after the last frame.
\<close>

fun format_frames :: "Frame list \<Rightarrow> string" where
  "format_frames [] = ''''"
| "format_frames (frame # frames) =
     File frame @ '':'' @ decimal (Line frame) @ '' '' @ Function frame @ [CHR 0x0A]
     @ (if Function frame = ''main.main'' then '''' else format_frames frames)"

definition callers :: "Frame list \<Rightarrow> string" where
  "callers stk =
     (let pc = take pcCount stk
      in if length pc = 0 then '''' else format_frames pc)"

text \<open>
  The frames of the library's own functions at the lines where they call a function
  argument or \<^verbatim>\<open>Err\<close>. The runtime prints the full path of the file and the full name of
  the instantiated generic function; the directory and the package path are left out
  here.
\<close>

definition ResultFlatMap_frame :: Frame where
  "ResultFlatMap_frame = \<lparr>File = ''result.go'', Line = 128, Function = ''gofp.ResultFlatMap''\<rparr>"

definition ResultSequence_frame :: Frame where
  "ResultSequence_frame =
     \<lparr>File = ''result.go'', Line = 137, Function = ''gofp.ResultSequence''\<rparr>"

definition AndThen_frame :: Frame where
  "AndThen_frame = \<lparr>File = ''result.go'', Line = 232, Function = ''gofp.Result.AndThen''\<rparr>"

definition OrElse_frame :: Frame where
  "OrElse_frame = \<lparr>File = ''result.go'', Line = 250, Function = ''gofp.Result.OrElse''\<rparr>"

definition Ensure_frame :: Frame where
  "Ensure_frame = \<lparr>File = ''result.go'', Line = 259, Function = ''gofp.Result.Ensure''\<rparr>"

definition EnsureWith_frame :: Frame where
  "EnsureWith_frame =
     \<lparr>File = ''result.go'', Line = 271, Function = ''gofp.Result.EnsureWith''\<rparr>"

definition RecoverWith_frame :: Frame where
  "RecoverWith_frame =
     \<lparr>File = ''result.go'', Line = 309, Function = ''gofp.Result.RecoverWith''\<rparr>"

text \<open>
  \<^verbatim>\<open>type Result[T any] struct { value T; err error; isErr bool; stack string }\<close>.

  A function argument that returns a Result (\<^verbatim>\<open>func(T) Result[U]\<close>) may call \<^verbatim>\<open>Err\<close>,
  \<^verbatim>\<open>FromReturn\<close> or \<^verbatim>\<open>Ensure\<close>, and what these record depends on the chain of calls
  the function runs under. Such an argument is a function of that chain (the frames from
  its caller outwards) and of its Go argument. An operation that calls it passes its own
  frame followed by its own chain \<open>stk\<close>. Function arguments that return a plain value,
  a bool or an error build no Result and take no chain.
\<close>

record 't Result =
  res_value :: 't
  res_err :: "error option"
  res_isErr :: bool
  res_stack :: string

definition Ok :: "'t \<Rightarrow> 't Result" where
  "Ok v = \<lparr>res_value = v, res_err = None, res_isErr = False, res_stack = ''''\<rparr>"

definition Err :: "Frame list \<Rightarrow> error option \<Rightarrow> ('t::default) Result" where
  "Err stk err =
     \<lparr>res_value = default, res_err = err, res_isErr = True, res_stack = callers stk\<rparr>"

definition FromReturn :: "Frame list \<Rightarrow> 't \<Rightarrow> error option \<Rightarrow> 't Result" where
  "FromReturn stk v err =
     (let stack = (if err \<noteq> None then callers stk else '''')
      in \<lparr>res_value = v, res_err = err, res_isErr = (err \<noteq> None), res_stack = stack\<rparr>)"

definition ResultMap :: "'t Result \<Rightarrow> ('t \<Rightarrow> 'u) \<Rightarrow> ('u::default) Result" where
  "ResultMap r fn =
     (if res_isErr r
      then \<lparr>res_value = default, res_err = res_err r, res_isErr = True, res_stack = res_stack r\<rparr>
      else Ok (fn (res_value r)))"

definition ResultApply :: "'t Result \<Rightarrow> ('t \<Rightarrow> 'u) Result \<Rightarrow> ('u::default) Result" where
  "ResultApply r fn =
     (if res_isErr r
      then \<lparr>res_value = default, res_err = res_err r, res_isErr = True, res_stack = res_stack r\<rparr>
      else if res_isErr fn
      then \<lparr>res_value = default, res_err = res_err fn, res_isErr = True, res_stack = res_stack fn\<rparr>
      else Ok ((res_value fn) (res_value r)))"

definition ResultFlatMap ::
  "Frame list \<Rightarrow> 't Result \<Rightarrow> (Frame list \<Rightarrow> 't \<Rightarrow> 'u Result) \<Rightarrow> ('u::default) Result" where
  "ResultFlatMap stk r fn =
     (if res_isErr r
      then \<lparr>res_value = default, res_err = res_err r, res_isErr = True, res_stack = res_stack r\<rparr>
      else fn (ResultFlatMap_frame # stk) (res_value r))"

text \<open>
  The method \<^verbatim>\<open>Result.FlatMap\<close> calls \<^verbatim>\<open>ResultFlatMap\<close> at line 40: the function
  argument runs one frame deeper than under the free function.
\<close>

definition Result_FlatMap_frame :: Frame where
  "Result_FlatMap_frame =
     \<lparr>File = ''result.go'', Line = 40, Function = ''gofp.Result.FlatMap''\<rparr>"

definition Result_FlatMap ::
  "Frame list \<Rightarrow> 't Result \<Rightarrow> (Frame list \<Rightarrow> 't \<Rightarrow> 't Result) \<Rightarrow> ('t::default) Result" where
  "Result_FlatMap stk r fn = ResultFlatMap (Result_FlatMap_frame # stk) r fn"

definition ResultSequence :: "Frame list \<Rightarrow> 't Result list \<Rightarrow> ('t list) Result" where
  "ResultSequence stk results =
     foldl (\<lambda>values r. ResultFlatMap (ResultSequence_frame # stk) values
                          (\<lambda>_ vs. ResultMap r (\<lambda>v. vs @ [v])))
       (Ok []) results"

definition Result_TryUnwrap :: "('t::default) Result \<Rightarrow> 't \<times> bool" where
  "Result_TryUnwrap r = (if res_isErr r then (default, False) else (res_value r, True))"

definition Result_And :: "'t Result \<Rightarrow> 't Result \<Rightarrow> 't Result" where
  "Result_And r res = (if res_isErr r then r else res)"

definition Result_AndThen ::
  "Frame list \<Rightarrow> 't Result \<Rightarrow> (Frame list \<Rightarrow> 't \<Rightarrow> 't Result) \<Rightarrow> 't Result" where
  "Result_AndThen stk r fn = (if res_isErr r then r else fn (AndThen_frame # stk) (res_value r))"

definition Result_Or :: "'t Result \<Rightarrow> 't Result \<Rightarrow> 't Result" where
  "Result_Or r res = (if \<not> res_isErr r then r else res)"

definition Result_OrElse ::
  "Frame list \<Rightarrow> 't Result \<Rightarrow> (Frame list \<Rightarrow> error option \<Rightarrow> 't Result) \<Rightarrow> 't Result" where
  "Result_OrElse stk r fn = (if \<not> res_isErr r then r else fn (OrElse_frame # stk) (res_err r))"

definition Result_Ensure ::
  "Frame list \<Rightarrow> ('t::default) Result \<Rightarrow> error option \<Rightarrow> ('t \<Rightarrow> bool) \<Rightarrow> 't Result" where
  "Result_Ensure stk r err pred =
     (if res_isErr r then r
      else if \<not> pred (res_value r) then Err (Ensure_frame # stk) err
      else r)"

definition Result_EnsureWith ::
  "Frame list \<Rightarrow> ('t::default) Result \<Rightarrow> ('t \<Rightarrow> bool) \<Rightarrow> ('t \<Rightarrow> error option) \<Rightarrow> 't Result" where
  "Result_EnsureWith stk r pred errFn =
     (if res_isErr r then r
      else if \<not> pred (res_value r) then Err (EnsureWith_frame # stk) (errFn (res_value r))
      else r)"

definition Result_Wrap :: "('t::default) Result \<Rightarrow> string \<Rightarrow> 't Result" where
  "Result_Wrap r msg =
     (if \<not> res_isErr r then r
      else \<lparr>res_value = default, res_err = Some (Errorf_wrap msg (res_err r)),
             res_isErr = True, res_stack = res_stack r\<rparr>)"

definition Result_ToReturn :: "'t Result \<Rightarrow> 't \<times> error option" where
  "Result_ToReturn r = (res_value r, res_err r)"

definition Result_Recover :: "'t Result \<Rightarrow> (error option \<Rightarrow> 't) \<Rightarrow> 't Result" where
  "Result_Recover r fn = (if res_isErr r then Ok (fn (res_err r)) else r)"

definition Result_RecoverWith ::
  "Frame list \<Rightarrow> 't Result \<Rightarrow> (Frame list \<Rightarrow> error option \<Rightarrow> 't Result) \<Rightarrow> 't Result" where
  "Result_RecoverWith stk r fn =
     (if res_isErr r then fn (RecoverWith_frame # stk) (res_err r) else r)"

definition Result_StackTrace :: "'t Result \<Rightarrow> string" where
  "Result_StackTrace r = (if res_isErr r then res_stack r else '''')"

text \<open>
  The two halves of the invariant the specification states for Result: a successful
  Result carries no diagnostic; a failed Result carries an error that is not nil.
\<close>

definition Result_no_diagnostic :: "'t Result \<Rightarrow> bool" where
  "Result_no_diagnostic r \<longleftrightarrow> (\<not> res_isErr r \<longrightarrow> res_stack r = '''')"

definition Result_has_error :: "'t Result \<Rightarrow> bool" where
  "Result_has_error r \<longleftrightarrow> (res_isErr r \<longrightarrow> res_err r \<noteq> None)"

text \<open>
  Two Results that agree in everything but the diagnostic: the success flag, the value
  and the error.
\<close>

definition same_but_stack :: "'t Result \<Rightarrow> 't Result \<Rightarrow> bool" where
  "same_but_stack r r' \<longleftrightarrow>
     res_isErr r = res_isErr r' \<and> res_value r = res_value r' \<and> res_err r = res_err r'"

text \<open>
  Function arguments that the monad laws speak of. \<open>Ok_fn\<close> is \<^verbatim>\<open>Ok\<close> passed as a
  function: it reads no call stack. \<open>FlatMap_closure cl f g\<close> is the function literal
  \<^verbatim>\<open>func(x) { return ResultFlatMap(f(x), g) }\<close> of the associativity law, \<open>cl\<close> being
  the frame of the literal: it calls \<open>f\<close> and \<^verbatim>\<open>ResultFlatMap\<close> under its own frame.
  \<open>FlatMap_method_closure cl f g\<close> is the same literal written with the method,
  \<^verbatim>\<open>func(x) { return f(x).FlatMap(g) }\<close>.
\<close>

definition Ok_fn :: "Frame list \<Rightarrow> 't \<Rightarrow> 't Result" where
  "Ok_fn stk v = Ok v"

definition FlatMap_closure ::
  "Frame \<Rightarrow> (Frame list \<Rightarrow> 't \<Rightarrow> 'u Result) \<Rightarrow> (Frame list \<Rightarrow> 'u \<Rightarrow> 'v Result)
     \<Rightarrow> Frame list \<Rightarrow> 't \<Rightarrow> ('v::default) Result" where
  "FlatMap_closure cl f g stk x = ResultFlatMap (cl # stk) (f (cl # stk) x) g"

definition FlatMap_method_closure ::
  "Frame \<Rightarrow> (Frame list \<Rightarrow> 't \<Rightarrow> 't Result) \<Rightarrow> (Frame list \<Rightarrow> 't \<Rightarrow> 't Result)
     \<Rightarrow> Frame list \<Rightarrow> 't \<Rightarrow> ('t::default) Result" where
  "FlatMap_method_closure cl f g stk x = Result_FlatMap (cl # stk) (f (cl # stk) x) g"

text \<open>
  The Stack program of the repository (package main, the second program in
  src/state/example_test.go), with its line numbers counted from its first line and
  main.go as its file name:
  \<^verbatim>\<open>
  func topMethod() gofp.Result[int] { return middleMethod(gofp.Ok(5)) }
  func middleMethod(r gofp.Result[int]) gofp.Result[int] {
      return r.FlatMap(func(i int) gofp.Result[int] { return bottomMethod(r) })
  }
  func bottomMethod(_ gofp.Result[int]) gofp.Result[int] {
      return gofp.Err[int](fmt.Errorf("an error"))
  }
  \<close>
  \<^verbatim>\<open>main\<close> calls \<^verbatim>\<open>topMethod\<close> at line 12. \<^verbatim>\<open>fmt.Errorf\<close> without \<^verbatim>\<open>%w\<close> wraps
  nothing. \<open>middleMethod_func1\<close> is the function literal in \<^verbatim>\<open>middleMethod\<close>.
\<close>

definition bottomMethod :: "Frame list \<Rightarrow> int Result \<Rightarrow> int Result" where
  "bottomMethod stk r =
     Err (\<lparr>File = ''main.go'', Line = 27, Function = ''main.bottomMethod''\<rparr> # stk)
       (Some (errorString ''an error''))"

definition middleMethod_func1 :: "int Result \<Rightarrow> Frame list \<Rightarrow> int \<Rightarrow> int Result" where
  "middleMethod_func1 r stk i =
     bottomMethod (\<lparr>File = ''main.go'', Line = 22, Function = ''main.middleMethod.func1''\<rparr> # stk) r"

definition middleMethod :: "Frame list \<Rightarrow> int Result \<Rightarrow> int Result" where
  "middleMethod stk r =
     Result_FlatMap (\<lparr>File = ''main.go'', Line = 21, Function = ''main.middleMethod''\<rparr> # stk) r
       (middleMethod_func1 r)"

definition topMethod :: "Frame list \<Rightarrow> int Result" where
  "topMethod stk =
     middleMethod (\<lparr>File = ''main.go'', Line = 17, Function = ''main.topMethod''\<rparr> # stk) (Ok 5)"

section \<open>Reader (reader/reader.go)\<close>

text \<open>\<^verbatim>\<open>type Reader[E, A any] struct { g func(E) A }\<close>\<close>

record ('e, 'a) Reader =
  reader_g :: "'e \<Rightarrow> 'a"

definition Reader_Run :: "('e, 'a) Reader \<Rightarrow> 'e \<Rightarrow> 'a" where
  "Reader_Run r env = reader_g r env"

definition Reader_New :: "('e \<Rightarrow> 'a) \<Rightarrow> ('e, 'a) Reader" where
  "Reader_New f = \<lparr>reader_g = f\<rparr>"

definition Reader_Pure :: "'a \<Rightarrow> ('e, 'a) Reader" where
  "Reader_Pure a = Reader_New (\<lambda>_. a)"

definition Reader_Ask :: "('e, 'e) Reader" where
  "Reader_Ask = Reader_New (\<lambda>e. e)"

definition Reader_Local :: "('e, 'a) Reader \<Rightarrow> ('e \<Rightarrow> 'e) \<Rightarrow> ('e, 'a) Reader" where
  "Reader_Local r f = Reader_New (\<lambda>e. Reader_Run r (f e))"

definition Reader_Map :: "('e, 'a) Reader \<Rightarrow> ('a \<Rightarrow> 'b) \<Rightarrow> ('e, 'b) Reader" where
  "Reader_Map r f = \<lparr>reader_g = (\<lambda>e. f (reader_g r e))\<rparr>"

definition Reader_FlatMap ::
  "('e, 'a) Reader \<Rightarrow> ('a \<Rightarrow> ('e, 'b) Reader) \<Rightarrow> ('e, 'b) Reader" where
  "Reader_FlatMap r f = \<lparr>reader_g = (\<lambda>e. reader_g (f (reader_g r e)) e)\<rparr>"

section \<open>State (state/state.go)\<close>

text \<open>
  \<^verbatim>\<open>type State[S, A any] struct { g func(S) (A, S) }\<close>. \<^verbatim>\<open>gofp.Unit\<close> is \<open>unit\<close>.
\<close>

record ('s, 'a) State =
  state_g :: "'s \<Rightarrow> 'a \<times> 's"

definition State_Run :: "('s, 'a) State \<Rightarrow> 's \<Rightarrow> 'a \<times> 's" where
  "State_Run s state = state_g s state"

definition State_Pure :: "'a \<Rightarrow> ('s, 'a) State" where
  "State_Pure a = \<lparr>state_g = (\<lambda>s. (a, s))\<rparr>"

definition State_Get :: "('s, 's) State" where
  "State_Get = \<lparr>state_g = (\<lambda>state. (state, state))\<rparr>"

definition State_Gets :: "('s \<Rightarrow> 'a) \<Rightarrow> ('s, 'a) State" where
  "State_Gets f = \<lparr>state_g = (\<lambda>s. (f s, s))\<rparr>"

definition State_Put :: "'s \<Rightarrow> ('s, unit) State" where
  "State_Put state = \<lparr>state_g = (\<lambda>_. ((), state))\<rparr>"

definition State_Modify :: "('s \<Rightarrow> 's) \<Rightarrow> ('s, unit) State" where
  "State_Modify f = \<lparr>state_g = (\<lambda>s. ((), f s))\<rparr>"

definition State_Map :: "('s, 'a) State \<Rightarrow> ('a \<Rightarrow> 'b) \<Rightarrow> ('s, 'b) State" where
  "State_Map s f =
     \<lparr>state_g = (\<lambda>state. case state_g s state of (a, newState) \<Rightarrow> (f a, newState))\<rparr>"

definition State_FlatMap ::
  "('s, 'a) State \<Rightarrow> ('a \<Rightarrow> ('s, 'b) State) \<Rightarrow> ('s, 'b) State" where
  "State_FlatMap s f =
     \<lparr>state_g = (\<lambda>state. case state_g s state of (a, newState) \<Rightarrow> state_g (f a) newState)\<rparr>"

definition State_Zip ::
  "('s, 'a) State \<Rightarrow> ('s, 'b) State \<Rightarrow> ('a \<Rightarrow> 'b \<Rightarrow> 'u) \<Rightarrow> ('s, 'u) State" where
  "State_Zip sa sb f = State_FlatMap sa (\<lambda>a. State_Map sb (\<lambda>b. f a b))"

definition State_Sequence :: "('s, 'a) State list \<Rightarrow> ('s, 'a list) State" where
  "State_Sequence states =
     foldl (\<lambda>values s. State_Zip values s (\<lambda>vs a. vs @ [a])) (State_Pure []) states"

text \<open>
  The two descriptions the specification compares \<^verbatim>\<open>Sequence\<close> with, written from its
  words. \<open>thread_states\<close> runs the elements in list order, each on the state the one before
  left, and collects the values in that order. \<open>FlatMap_chain\<close> is the manual chain
  \<^verbatim>\<open>sa.FlatMap(_ => sb)...FlatMap(_ => sn)\<close>.
\<close>

fun thread_states :: "('s, 'a) State list \<Rightarrow> 's \<Rightarrow> 'a list \<times> 's" where
  "thread_states [] s0 = ([], s0)"
| "thread_states (x # xs) s0 =
     (case State_Run x s0 of (v, sa) \<Rightarrow>
        (case thread_states xs sa of (vs, sb) \<Rightarrow> (v # vs, sb)))"

definition FlatMap_chain :: "('s, 'a) State \<Rightarrow> ('s, 'a) State list \<Rightarrow> ('s, 'a) State" where
  "FlatMap_chain sa rest = foldl (\<lambda>acc s. State_FlatMap acc (\<lambda>_. s)) sa rest"

section \<open>Writer (writer/writer.go)\<close>

text \<open>
  \<^verbatim>\<open>type Monoid[A any] interface { Empty() A; Append(A, A) A }\<close>: a value of the
  interface is the pair of its two methods.
  \<^verbatim>\<open>type Writer[W, A any] struct { g func() (A, W); monoid Monoid[W] }\<close>
\<close>

record 'w Monoid =
  Empty :: 'w
  Append :: "'w \<Rightarrow> 'w \<Rightarrow> 'w"

record ('w, 'a) Writer =
  writer_g :: "unit \<Rightarrow> 'a \<times> 'w"
  writer_monoid :: "'w Monoid"

definition Writer_Run :: "('w, 'a) Writer \<Rightarrow> 'a \<times> 'w" where
  "Writer_Run w = writer_g w ()"

definition Writer_Pure :: "'a \<Rightarrow> 'w Monoid \<Rightarrow> ('w, 'a) Writer" where
  "Writer_Pure a m = \<lparr>writer_g = (\<lambda>_. (a, Empty m)), writer_monoid = m\<rparr>"

definition Writer_Tell :: "'w \<Rightarrow> 'w Monoid \<Rightarrow> ('w, 'a::default) Writer" where
  "Writer_Tell w m = \<lparr>writer_g = (\<lambda>_. (default, w)), writer_monoid = m\<rparr>"

definition Writer_TellWithValue :: "'a \<Rightarrow> 'w \<Rightarrow> 'w Monoid \<Rightarrow> ('w, 'a) Writer" where
  "Writer_TellWithValue a w m = \<lparr>writer_g = (\<lambda>_. (a, w)), writer_monoid = m\<rparr>"

definition Writer_Map :: "('w, 'a) Writer \<Rightarrow> ('a \<Rightarrow> 'b) \<Rightarrow> ('w, 'b) Writer" where
  "Writer_Map w f =
     \<lparr>writer_g = (\<lambda>_. case writer_g w () of (a, log) \<Rightarrow> (f a, log)),
      writer_monoid = writer_monoid w\<rparr>"

definition Writer_Apply :: "('w, 'a) Writer \<Rightarrow> ('w, 'a \<Rightarrow> 'b) Writer \<Rightarrow> ('w, 'b) Writer" where
  "Writer_Apply w f =
     \<lparr>writer_g = (\<lambda>_. case Writer_Run w of (a, logA) \<Rightarrow>
                      (case Writer_Run f of (fn, logF) \<Rightarrow>
                         (fn a, Append (writer_monoid w) logA logF))),
      writer_monoid = writer_monoid w\<rparr>"

definition Writer_FlatMap ::
  "('w, 'a) Writer \<Rightarrow> ('a \<Rightarrow> ('w, 'b) Writer) \<Rightarrow> ('w, 'b) Writer" where
  "Writer_FlatMap w f =
     \<lparr>writer_g = (\<lambda>_. case writer_g w () of (a, w1) \<Rightarrow>
                      (let wb = f a in
                         (case writer_g wb () of (b, w2) \<Rightarrow>
                            (b, Append (writer_monoid w) w1 w2)))),
      writer_monoid = writer_monoid w\<rparr>"

text \<open>The two monoids of the test suite of the writer package (src/unnamed/part_003).\<close>

definition StringMonoid :: "string Monoid" where
  "StringMonoid = \<lparr>Empty = '''', Append = (\<lambda>a b. a @ b)\<rparr>"

definition SliceMonoid :: "('t list) Monoid" where
  "SliceMonoid = \<lparr>Empty = [], Append = (\<lambda>a b. a @ b)\<rparr>"

text \<open>
  The monoid laws. The library assumes them of every monoid it is given and never checks
  them.
\<close>

definition Monoid_laws :: "'w Monoid \<Rightarrow> bool" where
  "Monoid_laws m \<longleftrightarrow>
     (\<forall>x. Append m (Empty m) x = x) \<and> (\<forall>x. Append m x (Empty m) = x)
     \<and> (\<forall>x y z. Append m (Append m x y) z = Append m x (Append m y z))"

section \<open>Either: the accumulating apply\<close>

text \<open>
  C1. \<^verbatim>\<open>EitherApplyMap(e, efn, combine)\<close>: when both operands are Left, the result is
  Left of \<open>combine\<close> applied to the function-side Left value first and the value-side
  Left value second, so with list append as \<open>combine\<close> the result is Left of the
  function-side list followed by the value-side list; when exactly one operand is Left,
  its Left value is returned unchanged; when both are Right, the result is Right of the
  function applied to the value.
\<close>

theorem EitherApplyMap_cases:
  "EitherApplyMap (Left e1) (Left e2) c = Left (c e2 e1)
   \<and> EitherApplyMap (Left l1) (Left l2) (@) = Left (l2 @ l1)
   \<and> EitherApplyMap (Left e1) (Right f) c = Left e1
   \<and> EitherApplyMap (Right v) (Left e2) c = Left e2
   \<and> EitherApplyMap (Right v) (Right f) c = Right (f v)"
  by (simp add: EitherApplyMap_def Left_def Right_def)

section \<open>Option: sequencing a slice\<close>

lemma Option_sel:
  "opt_valid (OptionSome v)" "opt_value (OptionSome v) = v" "\<not> opt_valid OptionNone"
  "opt_value OptionNone = default"
  by (simp_all add: OptionSome_def OptionNone_def)

lemma OptionSequence_None:
  "foldl (\<lambda>values opt. OptionFlatMap values (\<lambda>vs. OptionMap opt (\<lambda>v. vs @ [v])))
     OptionNone os = OptionNone"
  by (induction os) (simp_all add: OptionFlatMap_def OptionNone_def)

lemma OptionSequence_Some:
  "foldl (\<lambda>values opt. OptionFlatMap values (\<lambda>vs. OptionMap opt (\<lambda>v. vs @ [v])))
     (OptionSome acc) os =
   (if list_all opt_valid os then OptionSome (acc @ map opt_value os) else OptionNone)"
proof (induction os arbitrary: acc)
  case Nil
  show ?case by simp
next
  case (Cons x xs)
  show ?case
  proof (cases "opt_valid x")
    case True
    then have "OptionFlatMap (OptionSome acc) (\<lambda>vs. OptionMap x (\<lambda>v. vs @ [v]))
        = OptionSome (acc @ [opt_value x])"
      by (simp add: OptionFlatMap_def OptionMap_def OptionSome_def)
    with True Cons.IH [of "acc @ [opt_value x]"] show ?thesis by simp
  next
    case False
    then have "OptionFlatMap (OptionSome acc) (\<lambda>vs. OptionMap x (\<lambda>v. vs @ [v])) = OptionNone"
      by (simp add: OptionFlatMap_def OptionMap_def OptionSome_def)
    with False show ?thesis by (simp add: OptionSequence_None)
  qed
qed

text \<open>
  C7. \<^verbatim>\<open>OptionSequence\<close> returns Some of the slice of all contained values, in the order
  of the elements, when every element is Some, and None when any element of the slice is
  None. So a slice of Somes gives Some of their values, a slice with a None anywhere in it
  gives None, and the empty slice gives Some of the empty list.
\<close>

theorem OptionSequence_all_or_none:
  "((\<forall>opt \<in> set os. opt_valid opt) \<longrightarrow> OptionSequence os = OptionSome (map opt_value os))
   \<and> ((\<exists>opt \<in> set os. \<not> opt_valid opt) \<longrightarrow> OptionSequence os = OptionNone)
   \<and> OptionSequence (map OptionSome vs) = OptionSome vs
   \<and> OptionSequence (map OptionSome vs @ OptionNone # rest) = OptionNone
   \<and> OptionSequence ([] :: 't Option list) = OptionSome []"
proof -
  have 1: "map opt_value (map OptionSome vs) = vs"
    by (induction vs) (simp_all add: OptionSome_def)
  have 2: "list_all opt_valid (map OptionSome vs)" by (simp add: list_all_iff OptionSome_def)
  have 3: "\<not> opt_valid OptionNone" by (simp add: OptionNone_def)
  show ?thesis 
    using 1 2 3 unfolding OptionSequence_def OptionSequence_Some
    by (auto simp add: list_all_iff)
qed

theorem OptionSequence_all_or_none_witness:
  "OptionSequence [OptionSome (1::int), OptionSome 2, OptionSome 3] = OptionSome [1, 2, 3]
   \<and> OptionSequence [OptionSome (1::int), OptionNone, OptionSome 3] = OptionNone"
proof -
  have a: "\<forall>opt \<in> set [OptionSome (1::int), OptionSome 2, OptionSome 3]. opt_valid opt"
    by (simp add: Option_sel)
  have b: "\<exists>opt \<in> set [OptionSome (1::int), OptionNone, OptionSome 3]. \<not> opt_valid opt"
    by (simp add: Option_sel)
  have c: "map opt_value [OptionSome (1::int), OptionSome 2, OptionSome 3] = [1, 2, 3]"
    by (simp add: Option_sel)
  from a b c show ?thesis
    using OptionSequence_all_or_none [of "[OptionSome (1::int), OptionSome 2, OptionSome 3]"]
      OptionSequence_all_or_none [of "[OptionSome (1::int), OptionNone, OptionSome 3]"]
    by metis
qed

section \<open>Writer: the order of the accumulated output\<close>

text \<open>
  C4. When \<^verbatim>\<open>w\<close> yields \<open>(a, log1)\<close> and \<^verbatim>\<open>f(a)\<close> yields \<open>(b, log2)\<close>, running
  \<^verbatim>\<open>FlatMap(w, f)\<close> returns \<open>b\<close> with the output \<open>Append log1 log2\<close> of the monoid of
  \<^verbatim>\<open>w\<close>: \<open>log1\<close> is the left operand. \<^verbatim>\<open>Apply(w, wf)\<close> appends the output of the value
  writer \<^verbatim>\<open>w\<close> to the left of the output of the function writer. With string or slice
  concatenation as the monoid the outputs are concatenated in that order.
\<close>

theorem Writer_output_order:
  "(Writer_Run w = (a, log1) \<and> Writer_Run (f a) = (b, log2)
      \<longrightarrow> Writer_Run (Writer_FlatMap w f) = (b, Append (writer_monoid w) log1 log2))
   \<and> (Writer_Run w = (a, log1) \<and> Writer_Run wfn = (fn, logF)
      \<longrightarrow> Writer_Run (Writer_Apply w wfn) = (fn a, Append (writer_monoid w) log1 logF))
   \<and> (writer_monoid ws = StringMonoid \<and> Writer_Run ws = (c, out1)
        \<and> Writer_Run (g c) = (d, out2) \<and> Writer_Run wg = (gn, out3)
      \<longrightarrow> snd (Writer_Run (Writer_FlatMap ws g)) = out1 @ out2
          \<and> snd (Writer_Run (Writer_Apply ws wg)) = out1 @ out3)
   \<and> (writer_monoid wl = SliceMonoid \<and> Writer_Run wl = (c', l1)
        \<and> Writer_Run (h c') = (d', l2) \<and> Writer_Run wh = (hn, l3)
      \<longrightarrow> snd (Writer_Run (Writer_FlatMap wl h)) = l1 @ l2
          \<and> snd (Writer_Run (Writer_Apply wl wh)) = l1 @ l3)"
  by (simp add: Writer_Run_def Writer_FlatMap_def Writer_Apply_def StringMonoid_def
      SliceMonoid_def)

theorem Writer_output_order_witness:
  "Writer_Run (Writer_FlatMap (Writer_TellWithValue (1::int) ''ab'' StringMonoid)
       (\<lambda>x. Writer_TellWithValue (x + 1) ''cd'' StringMonoid)) = (2, ''abcd'')
   \<and> Writer_Run (Writer_Apply (Writer_TellWithValue (1::int) ''ab'' StringMonoid)
       (Writer_TellWithValue (\<lambda>x. x + (5::int)) ''cd'' StringMonoid)) = (6, ''abcd'')
   \<and> snd (Writer_Run (Writer_FlatMap (Writer_TellWithValue (1::int) [1::nat] SliceMonoid)
       (\<lambda>x. Writer_TellWithValue (x + 1) [2] SliceMonoid))) = [1, 2]
   \<and> snd (Writer_Run (Writer_Apply (Writer_TellWithValue (1::int) [1::nat] SliceMonoid)
       (Writer_TellWithValue (\<lambda>x. x + (5::int)) [2] SliceMonoid))) = [1, 2]"
  using Writer_output_order [of "Writer_TellWithValue (1::int) ''ab'' StringMonoid" 1 "''ab''"
      "\<lambda>x. Writer_TellWithValue (x + 1) ''cd'' StringMonoid" 2 "''cd''"
      "Writer_TellWithValue (\<lambda>x. x + (5::int)) ''cd'' StringMonoid" "\<lambda>x. x + 5" "''cd''"
      "Writer_TellWithValue (1::int) ''ab'' StringMonoid" 1 "''ab''"
      "\<lambda>x. Writer_TellWithValue (x + 1) ''cd'' StringMonoid" 2 "''cd''"
      "Writer_TellWithValue (\<lambda>x. x + (5::int)) ''cd'' StringMonoid" "\<lambda>x. x + 5" "''cd''"
      "Writer_TellWithValue (1::int) [1::nat] SliceMonoid" 1 "[1]"
      "\<lambda>x. Writer_TellWithValue (x + 1) [2] SliceMonoid" 2 "[2]"
      "Writer_TellWithValue (\<lambda>x. x + (5::int)) [2] SliceMonoid" "\<lambda>x. x + 5" "[2]"]
  by (simp add: Writer_Run_def Writer_TellWithValue_def StringMonoid_def SliceMonoid_def)

section \<open>State: sequencing a slice\<close>

lemma State_Run_Zip:
  "State_Run (State_Zip sa sb f) s0 =
     (case State_Run sa s0 of (a, sa) \<Rightarrow> (case State_Run sb sa of (b, sb) \<Rightarrow> (f a b, sb)))"
  by (simp add: State_Run_def State_Zip_def State_FlatMap_def State_Map_def split: prod.splits)

lemma State_Run_FlatMap:
  "State_Run (State_FlatMap s f) s0 =
     (case State_Run s s0 of (a, sa) \<Rightarrow> State_Run (f a) sa)"
  by (simp add: State_Run_def State_FlatMap_def)

lemma State_Run_basic:
  "State_Run (State_Pure a) s0 = (a, s0)"
  "State_Run State_Get s0 = (s0, s0)"
  "State_Run (State_Gets f) s0 = (f s0, s0)"
  "State_Run (State_Put s) s0 = ((), s)"
  "State_Run (State_Modify f) s0 = ((), f s0)"
  by (simp_all add: State_Run_def State_Pure_def State_Get_def State_Gets_def State_Put_def
      State_Modify_def)

lemma State_Sequence_foldl:
  "State_Run (foldl (\<lambda>values s. State_Zip values s (\<lambda>vs a. vs @ [a])) acc xs) s0 =
     (case State_Run acc s0 of (vs0, sa) \<Rightarrow>
        (case thread_states xs sa of (vs, sb) \<Rightarrow> (vs0 @ vs, sb)))"
proof (induction xs arbitrary: acc)
  case Nil
  show ?case by (simp split: prod.splits)
next
  case (Cons x xs)
  show ?case
    by (simp add: Cons.IH State_Run_Zip split: prod.splits)
qed

lemma FlatMap_chain_foldl:
  "snd (State_Run (foldl (\<lambda>acc s. State_FlatMap acc (\<lambda>_. s)) acc xs) s0) =
     snd (thread_states xs (snd (State_Run acc s0)))"
proof (induction xs arbitrary: acc)
  case Nil
  show ?case by simp
next
  case (Cons x xs)
  show ?case
    by (simp add: Cons.IH State_Run_FlatMap split: prod.splits)
qed

text \<open>
  C5. For every initial state \<open>s0\<close> and every list of State computations,
  \<^verbatim>\<open>Sequence(list).Run(s0)\<close> threads the state through the elements in list order and
  returns the list of their values in that order with the state after the last element
  (\<open>thread_states\<close>); its final state is the final state of the manual chain
  \<^verbatim>\<open>sa.FlatMap(_ => sb)...FlatMap(_ => sn)\<close> run on \<open>s0\<close>; for the empty list the
  value is the empty list and the state is \<open>s0\<close>.
\<close>

theorem State_Sequence_threads:
  "State_Run (State_Sequence (xs :: ('s, 'a) State list)) s0 = thread_states xs s0
   \<and> snd (State_Run (State_Sequence ((sa :: ('s, 'a) State) # rest)) s0)
       = snd (State_Run (FlatMap_chain sa rest) s0)
   \<and> State_Run (State_Sequence ([] :: ('s, 'a) State list)) s0 = ([], s0)"
proof -
  have run: "State_Run (State_Sequence ys) s = thread_states ys s"
    for ys :: "('s, 'a) State list" and s
    by (simp add: State_Sequence_def State_Sequence_foldl State_Run_basic split: prod.splits)
  have chain: "snd (State_Run (FlatMap_chain sa rest) s0) = snd (thread_states (sa # rest) s0)"
    by (simp add: FlatMap_chain_def FlatMap_chain_foldl split: prod.splits)
  show ?thesis
    using run [of xs s0] run [of "sa # rest" s0] run [of "[]" s0] chain by simp
qed

theorem State_Sequence_threads_witness:
  "State_Run (State_Sequence [State_Gets (\<lambda>s. s + 1),
       State_FlatMap (State_Modify (\<lambda>s. s * 2)) (\<lambda>_. State_Get),
       State_Gets (\<lambda>s. s - 3)]) (5::int) = ([6, 10, 7], 10)
   \<and> snd (State_Run (FlatMap_chain (State_Gets (\<lambda>s. s + 1))
       [State_FlatMap (State_Modify (\<lambda>s. s * 2)) (\<lambda>_. State_Get),
        State_Gets (\<lambda>s. s - 3)]) (5::int)) = 10"
proof -
  let ?sa = "State_Gets (\<lambda>s::int. s + 1)"
  let ?rest = "[State_FlatMap (State_Modify (\<lambda>s::int. s * 2)) (\<lambda>_. State_Get),
       State_Gets (\<lambda>s::int. s - 3)]"
  have t: "thread_states (?sa # ?rest) 5 = ([6, 10, 7], 10)"
    by (simp add: State_Run_basic State_Run_FlatMap)
  note T = State_Sequence_threads [of "?sa # ?rest" 5 ?sa ?rest]
  from T have a: "State_Run (State_Sequence (?sa # ?rest)) 5 = thread_states (?sa # ?rest) 5"
    by (rule conjunct1)
  from T have b: "snd (State_Run (State_Sequence (?sa # ?rest)) 5)
      = snd (State_Run (FlatMap_chain ?sa ?rest) 5)"
    by (elim conjE)
  show ?thesis
    unfolding b [symmetric] a t by simp
qed

section \<open>Reader: the local environment\<close>

text \<open>
  C6. For every Reader \<open>r\<close>, function \<open>f\<close> on environments and environment \<open>e\<close>,
  \<^verbatim>\<open>Local(r, f).Run(e)\<close> equals \<^verbatim>\<open>r.Run(f(e))\<close>: \<open>f\<close> is applied to the environment
  of each run. In particular \<^verbatim>\<open>Local(Ask(), f).Run(env)\<close> is \<open>f env\<close>, and
  \<^verbatim>\<open>Ask().Run(env)\<close>, run on its own, is still \<open>env\<close>.
\<close>

theorem Reader_Local_scoped:
  "Reader_Run (Reader_Local r f) e = Reader_Run r (f e)
   \<and> Reader_Run (Reader_Local Reader_Ask f) env = f env
   \<and> Reader_Run Reader_Ask env = env"
  by (simp add: Reader_Run_def Reader_Local_def Reader_Ask_def Reader_New_def)

section \<open>Extraction: Unwrap and TryUnwrap\<close>

text \<open>
  C9, as amended. \<^verbatim>\<open>Option.Unwrap\<close> returns the contained value for every Some, and
  panics exactly when it is called on None; the value of the panic is the string
  \<^verbatim>\<open>unwrapping None\<close>. The panic is a branch of its own in the result, apart from every
  Option value.
\<close>

theorem Option_Unwrap_panics_on_None:
  "Option_Unwrap (OptionSome (v :: 't::default)) = Inr v
   \<and> Option_Unwrap (OptionNone :: 't Option) = Inl (Panic ''unwrapping None'')
   \<and> (isl (Option_Unwrap opt) \<longleftrightarrow> \<not> opt_valid opt)
   \<and> (opt_valid opt \<longrightarrow> Option_Unwrap opt = Inr (opt_value opt))
   \<and> (\<not> opt_valid opt \<longrightarrow> Option_Unwrap opt = Inl (Panic ''unwrapping None''))"
  by (simp add: Option_Unwrap_def OptionSome_def OptionNone_def)

theorem Option_Unwrap_panics_on_None_witness:
  "Option_Unwrap (OptionSome (7::int)) = Inr 7
   \<and> Option_Unwrap (OptionNone :: int Option) = Inl (Panic ''unwrapping None'')"
  using Option_Unwrap_panics_on_None [of "7::int" "OptionSome (7::int)"]
    Option_Unwrap_panics_on_None [of "7::int" "OptionNone :: int Option"]
  by (simp add: Option_sel)

text \<open>
  The claim as the specification words it gives the panic the text
  \<^verbatim>\<open>unwrap called on None\<close>; the code panics with another string.
\<close>

theorem Option_Unwrap_message_counterexample:
  "Option_Unwrap (OptionNone :: int Option) \<noteq> Inl (Panic ''unwrap called on None'')"
  by (simp add: Option_Unwrap_def OptionNone_def)

text \<open>
  C10. \<^verbatim>\<open>TryUnwrap\<close> never panics, on all three data containers: for Some, Ok and Right
  it returns the value paired with true; for None, for every Err (built by \<^verbatim>\<open>Err\<close> or by
  \<^verbatim>\<open>FromReturn\<close> with an error) and for every Left it returns the zero value of the
  value type paired with false. \<^verbatim>\<open>TryUnwrapLeft\<close> of Either does the same for the left
  side.
\<close>

theorem TryUnwrap_total:
  "Option_TryUnwrap (OptionSome v) = (v, True)
   \<and> Option_TryUnwrap OptionNone = (default, False)
   \<and> Result_TryUnwrap (Ok v) = (v, True)
   \<and> Result_TryUnwrap (Err stk err) = (default, False)
   \<and> Result_TryUnwrap (FromReturn stk v (Some e)) = (default, False)
   \<and> Either_TryUnwrap (Right r) = (r, True)
   \<and> Either_TryUnwrap (Left l) = (default, False)
   \<and> Either_TryUnwrapLeft (Left l) = (l, True)
   \<and> Either_TryUnwrapLeft (Right r) = (default, False)
   \<and> (\<not> opt_valid opt \<longrightarrow> Option_TryUnwrap opt = (default, False))
   \<and> (res_isErr res \<longrightarrow> Result_TryUnwrap res = (default, False))
   \<and> (isLeft ei \<longrightarrow> Either_TryUnwrap ei = (default, False))
   \<and> (\<not> isLeft ei \<longrightarrow> Either_TryUnwrapLeft ei = (default, False))"
  by (simp add: Option_TryUnwrap_def Result_TryUnwrap_def Either_TryUnwrap_def
      Either_TryUnwrapLeft_def OptionSome_def OptionNone_def Ok_def Err_def FromReturn_def
      Left_def Right_def)

theorem TryUnwrap_total_witness:
  "Option_TryUnwrap (OptionNone :: int Option) = (0, False)
   \<and> Result_TryUnwrap (FromReturn [\<lparr>File = ''main.go'', Line = 10, Function = ''main.run''\<rparr>] (5::int) (Some (errorString ''boom'')))
       = (0, False)
   \<and> Either_TryUnwrap (Left ''boom'' :: (string, int) Either) = (0, False)
   \<and> Either_TryUnwrapLeft (Right 5 :: (string, int) Either) = ([], False)"
proof -
  let ?res = "FromReturn [\<lparr>File = ''main.go'', Line = 10, Function = ''main.run''\<rparr>] (5::int) (Some (errorString ''boom''))"
  have h: "\<not> opt_valid (OptionNone :: int Option)" "res_isErr ?res"
    "isLeft (Left ''boom'' :: (string, int) Either)"
    "\<not> isLeft (Right 5 :: (string, int) Either)"
    by (simp_all add: OptionNone_def FromReturn_def Left_def Right_def)
  note T = TryUnwrap_total [where v = "5::int" and stk = "[\<lparr>File = ''main.go'', Line = 10, Function = ''main.run''\<rparr>]"
      and err = None and e = "errorString ''boom''" and r = "5::int" and l = "''boom''"
      and opt = "OptionNone :: int Option" and res = ?res]
  note T1 = T [where ei = "Left ''boom'' :: (string, int) Either"]
  note T2 = T [where ei = "Right 5 :: (string, int) Either"]
  from T1 h have a: "Option_TryUnwrap (OptionNone :: int Option) = (default, False)"
    "Result_TryUnwrap ?res = (default, False)"
    "Either_TryUnwrap (Left ''boom'' :: (string, int) Either) = (default, False)"
    by blast+
  from T2 h have b:
    "Either_TryUnwrapLeft (Right 5 :: (string, int) Either) = (default, False)"
    by blast
  from a b show ?thesis
    by (simp add: default_int_def default_list_def)
qed

section \<open>Result: the invariant\<close>

lemma Result_sel:
  "res_isErr (Err stk e)" "res_err (Err stk e) = e" "res_stack (Err stk e) = callers stk"
  "res_value (Err stk e) = default"
  "\<not> res_isErr (Ok v)" "res_err (Ok v) = None" "res_stack (Ok v) = []" "res_value (Ok v) = v"
  by (simp_all add: Err_def Ok_def)

lemma no_diagnostic_built:
  "Result_no_diagnostic (Ok v)" "Result_no_diagnostic (Err stk e)"
  "Result_no_diagnostic (FromReturn stk v e)"
  "Result_no_diagnostic (ResultMap r f)" "Result_no_diagnostic (ResultApply r rf)"
  by (simp_all add: Result_no_diagnostic_def Ok_def Err_def FromReturn_def ResultMap_def
      ResultApply_def)

lemma no_diagnostic_FlatMap:
  "Result_no_diagnostic (g (ResultFlatMap_frame # stk) (res_value r))
     \<Longrightarrow> Result_no_diagnostic (ResultFlatMap stk r g)"
  by (simp add: Result_no_diagnostic_def ResultFlatMap_def)

lemma no_diagnostic_foldl:
  "Result_no_diagnostic acc \<Longrightarrow>
     Result_no_diagnostic
       (foldl (\<lambda>values r. ResultFlatMap stk values (\<lambda>_ vs. ResultMap r (\<lambda>v. vs @ [v]))) acc rs)"
proof (induction rs arbitrary: acc)
  case Nil
  then show ?case by simp
next
  case (Cons x xs)
  have "Result_no_diagnostic (ResultFlatMap stk acc (\<lambda>_ vs. ResultMap x (\<lambda>v. vs @ [v])))"
    by (simp add: no_diagnostic_FlatMap no_diagnostic_built)
  then show ?case by (simp add: Cons.IH)
qed

lemma no_diagnostic_Sequence: "Result_no_diagnostic (ResultSequence stk rs)"
  unfolding ResultSequence_def
  by (rule no_diagnostic_foldl) (simp add: no_diagnostic_built)

lemma no_diagnostic_methods:
  "Result_no_diagnostic res \<Longrightarrow> Result_no_diagnostic (Result_And r res)"
  "Result_no_diagnostic r \<Longrightarrow> Result_no_diagnostic res \<Longrightarrow> Result_no_diagnostic (Result_Or r res)"
  "Result_no_diagnostic (h (AndThen_frame # stk) (res_value r))
     \<Longrightarrow> Result_no_diagnostic (Result_AndThen stk r h)"
  "Result_no_diagnostic r \<Longrightarrow> Result_no_diagnostic (k (OrElse_frame # stk) (res_err r))
     \<Longrightarrow> Result_no_diagnostic (Result_OrElse stk r k)"
  "Result_no_diagnostic r \<Longrightarrow> Result_no_diagnostic (k (RecoverWith_frame # stk) (res_err r))
     \<Longrightarrow> Result_no_diagnostic (Result_RecoverWith stk r k)"
  "Result_no_diagnostic r \<Longrightarrow> Result_no_diagnostic (Result_Recover r kv)"
  "Result_no_diagnostic r \<Longrightarrow> Result_no_diagnostic (Result_Wrap r msg)"
  "Result_no_diagnostic r \<Longrightarrow> Result_no_diagnostic (Result_Ensure stk r e p)"
  "Result_no_diagnostic r \<Longrightarrow> Result_no_diagnostic (Result_EnsureWith stk r p ef)"
  by (simp_all add: Result_no_diagnostic_def Result_And_def Result_Or_def Result_AndThen_def
      Result_OrElse_def Result_RecoverWith_def Result_Recover_def Result_Wrap_def
      Result_Ensure_def Result_EnsureWith_def Ok_def Err_def)

lemma has_error_built:
  "Result_has_error (Ok v)" "Result_has_error (FromReturn stk v e)"
  "Result_has_error (Err stk e) \<longleftrightarrow> e \<noteq> None"
  "Result_has_error (Result_Recover r kv)" "Result_has_error (Result_Wrap r msg)"
  by (simp_all add: Result_has_error_def Ok_def FromReturn_def Err_def Result_Recover_def
      Result_Wrap_def)

lemma has_error_Map: "Result_has_error r \<Longrightarrow> Result_has_error (ResultMap r f)"
  by (simp add: Result_has_error_def ResultMap_def Ok_def)

lemma has_error_FlatMap:
  "Result_has_error r \<Longrightarrow> Result_has_error (g (ResultFlatMap_frame # stk) (res_value r))
     \<Longrightarrow> Result_has_error (ResultFlatMap stk r g)"
  by (simp add: Result_has_error_def ResultFlatMap_def)

lemma has_error_Apply:
  "Result_has_error r \<Longrightarrow> Result_has_error rf \<Longrightarrow> Result_has_error (ResultApply r rf)"
  by (simp add: Result_has_error_def ResultApply_def Ok_def)

lemma has_error_foldl:
  "Result_has_error acc \<Longrightarrow> \<forall>r \<in> set rs. Result_has_error r \<Longrightarrow>
     Result_has_error
       (foldl (\<lambda>values r. ResultFlatMap stk values (\<lambda>_ vs. ResultMap r (\<lambda>v. vs @ [v]))) acc rs)"
proof (induction rs arbitrary: acc)
  case Nil
  then show ?case by simp
next
  case (Cons x xs)
  have "Result_has_error (ResultFlatMap stk acc (\<lambda>_ vs. ResultMap x (\<lambda>v. vs @ [v])))"
    using Cons.prems by (simp add: has_error_FlatMap has_error_Map)
  with Cons show ?case by simp
qed

lemma has_error_Sequence:
  "\<forall>r \<in> set rs. Result_has_error r \<Longrightarrow> Result_has_error (ResultSequence stk rs)"
  unfolding ResultSequence_def
  by (rule has_error_foldl) (simp_all add: has_error_built)

lemma has_error_methods:
  "Result_has_error r \<Longrightarrow> Result_has_error res \<Longrightarrow> Result_has_error (Result_And r res)"
  "Result_has_error res \<Longrightarrow> Result_has_error (Result_Or r res)"
  "Result_has_error r \<Longrightarrow> Result_has_error (h (AndThen_frame # stk) (res_value r))
     \<Longrightarrow> Result_has_error (Result_AndThen stk r h)"
  "Result_has_error (k (OrElse_frame # stk) (res_err r))
     \<Longrightarrow> Result_has_error (Result_OrElse stk r k)"
  "Result_has_error (k (RecoverWith_frame # stk) (res_err r))
     \<Longrightarrow> Result_has_error (Result_RecoverWith stk r k)"
  "Result_has_error r \<Longrightarrow> e \<noteq> None \<Longrightarrow> Result_has_error (Result_Ensure stk r e p)"
  "Result_has_error r \<Longrightarrow> ef (res_value r) \<noteq> None
     \<Longrightarrow> Result_has_error (Result_EnsureWith stk r p ef)"
  by (simp_all add: Result_has_error_def Result_And_def Result_Or_def Result_AndThen_def
      Result_OrElse_def Result_RecoverWith_def Result_Ensure_def Result_EnsureWith_def Err_def)

text \<open>
  C2, as amended. Every Result built by the constructors and the combinators carries no
  diagnostic when it is successful: \<^verbatim>\<open>Ok\<close>, \<^verbatim>\<open>Err\<close> with any error, nil included,
  \<^verbatim>\<open>FromReturn\<close>, \<^verbatim>\<open>ResultMap\<close>, \<^verbatim>\<open>ResultApply\<close> and \<^verbatim>\<open>ResultSequence\<close> return such a
  Result whatever their operands are, and every other combinator does when the Results it
  may return unchanged (its Result operands, the Result of its function argument) are
  such Results. A failed Result carries the error it was built with: \<^verbatim>\<open>Err\<close> keeps the
  error it is given, so its Result carries an error that is not nil exactly when that
  error is not nil; \<^verbatim>\<open>Ok\<close>, \<^verbatim>\<open>FromReturn\<close>, \<^verbatim>\<open>Recover\<close> and \<^verbatim>\<open>Wrap\<close> never return a
  failed Result with a nil error, and every other combinator does not when its Result
  operands and the Results of its function arguments do not and the errors given to
  \<^verbatim>\<open>Ensure\<close> and \<^verbatim>\<open>EnsureWith\<close> are not nil.
\<close>

theorem Result_invariant_preserved:
  "Result_no_diagnostic (Ok v)
   \<and> Result_no_diagnostic (Err stk e :: ('t::default) Result)
   \<and> Result_no_diagnostic (FromReturn stk v e)
   \<and> Result_no_diagnostic (ResultMap r f)
   \<and> Result_no_diagnostic (ResultApply r rf)
   \<and> Result_no_diagnostic (ResultSequence stk rs)
   \<and> (Result_no_diagnostic (g (ResultFlatMap_frame # stk) (res_value r))
        \<longrightarrow> Result_no_diagnostic (ResultFlatMap stk r g))
   \<and> (Result_no_diagnostic res \<longrightarrow> Result_no_diagnostic (Result_And r res))
   \<and> (Result_no_diagnostic r \<and> Result_no_diagnostic res
        \<longrightarrow> Result_no_diagnostic (Result_Or r res))
   \<and> (Result_no_diagnostic (h (AndThen_frame # stk) (res_value r))
        \<longrightarrow> Result_no_diagnostic (Result_AndThen stk r h))
   \<and> (Result_no_diagnostic r \<and> Result_no_diagnostic (k (OrElse_frame # stk) (res_err r))
        \<longrightarrow> Result_no_diagnostic (Result_OrElse stk r k))
   \<and> (Result_no_diagnostic r \<and> Result_no_diagnostic (k (RecoverWith_frame # stk) (res_err r))
        \<longrightarrow> Result_no_diagnostic (Result_RecoverWith stk r k))
   \<and> (Result_no_diagnostic r \<longrightarrow>
        Result_no_diagnostic (Result_Recover r kv)
        \<and> Result_no_diagnostic (Result_Wrap r msg)
        \<and> Result_no_diagnostic (Result_Ensure stk r e' p)
        \<and> Result_no_diagnostic (Result_EnsureWith stk r p ef))
   \<and> Result_has_error (Ok v)
   \<and> Result_has_error (FromReturn stk v e)
   \<and> res_err (Err stk e :: 't Result) = e
   \<and> (Result_has_error (Err stk e :: 't Result) \<longleftrightarrow> e \<noteq> None)
   \<and> Result_has_error (Result_Recover r kv)
   \<and> Result_has_error (Result_Wrap r msg)
   \<and> (Result_has_error r \<longrightarrow> Result_has_error (ResultMap r f))
   \<and> (Result_has_error r \<and> Result_has_error rf \<longrightarrow> Result_has_error (ResultApply r rf))
   \<and> ((\<forall>x \<in> set rs. Result_has_error x) \<longrightarrow> Result_has_error (ResultSequence stk rs))
   \<and> (Result_has_error r \<and> Result_has_error (g (ResultFlatMap_frame # stk) (res_value r))
        \<longrightarrow> Result_has_error (ResultFlatMap stk r g))
   \<and> (Result_has_error r \<and> Result_has_error res \<longrightarrow> Result_has_error (Result_And r res))
   \<and> (Result_has_error res \<longrightarrow> Result_has_error (Result_Or r res))
   \<and> (Result_has_error r \<and> Result_has_error (h (AndThen_frame # stk) (res_value r))
        \<longrightarrow> Result_has_error (Result_AndThen stk r h))
   \<and> (Result_has_error (k (OrElse_frame # stk) (res_err r))
        \<longrightarrow> Result_has_error (Result_OrElse stk r k))
   \<and> (Result_has_error (k (RecoverWith_frame # stk) (res_err r))
        \<longrightarrow> Result_has_error (Result_RecoverWith stk r k))
   \<and> (Result_has_error r \<and> e' \<noteq> None \<longrightarrow> Result_has_error (Result_Ensure stk r e' p))
   \<and> (Result_has_error r \<and> ef (res_value r) \<noteq> None
        \<longrightarrow> Result_has_error (Result_EnsureWith stk r p ef))"
  by (intro conjI impI)
    (simp_all add: no_diagnostic_built no_diagnostic_FlatMap no_diagnostic_Sequence
      no_diagnostic_methods has_error_built has_error_Map has_error_FlatMap has_error_Apply
      has_error_Sequence has_error_methods Result_sel)

theorem Result_invariant_preserved_witness:
  "Result_no_diagnostic (Result_Recover
       (Err [\<lparr>File = ''main.go'', Line = 10, Function = ''main.run''\<rparr>] None :: int Result)
       (\<lambda>_. 0))
   \<and> Result_no_diagnostic (ResultFlatMap
       [\<lparr>File = ''main.go'', Line = 10, Function = ''main.run''\<rparr>] (Ok (1::int))
       (\<lambda>s x. Err (\<lparr>File = ''main.go'', Line = 20, Function = ''main.f''\<rparr> # s) None
          :: int Result))
   \<and> Result_has_error (ResultMap
       (Err [\<lparr>File = ''main.go'', Line = 10, Function = ''main.run''\<rparr>]
          (Some (errorString ''boom'')) :: int Result) (\<lambda>x. x + 1))
   \<and> Result_has_error (ResultSequence
       [\<lparr>File = ''main.go'', Line = 10, Function = ''main.run''\<rparr>]
       [Ok (1::int),
        Err [\<lparr>File = ''main.go'', Line = 10, Function = ''main.run''\<rparr>]
          (Some (errorString ''boom'')),
        Ok 3])
   \<and> Result_has_error (ResultFlatMap
       [\<lparr>File = ''main.go'', Line = 10, Function = ''main.run''\<rparr>] (Ok (1::int))
       (\<lambda>s x. Err (\<lparr>File = ''main.go'', Line = 20, Function = ''main.f''\<rparr> # s)
          (Some (errorString ''boom'')) :: int Result))
   \<and> Result_has_error (Result_Ensure
       [\<lparr>File = ''main.go'', Line = 10, Function = ''main.run''\<rparr>] (Ok (1::int))
       (Some (errorString ''boom'')) (\<lambda>x. x > 10))"
proof -
  let ?stk = "[\<lparr>File = ''main.go'', Line = 10, Function = ''main.run''\<rparr>]"
  let ?uf = "\<lparr>File = ''main.go'', Line = 20, Function = ''main.f''\<rparr>"
  let ?e = "Some (errorString ''boom'')"
  let ?r = "Err ?stk ?e :: int Result"
  let ?nil = "Err ?stk None :: int Result"
  let ?g = "\<lambda>t (x::int). Err (?uf # t) ?e :: int Result"
  let ?gnil = "\<lambda>t (x::int). Err (?uf # t) None :: int Result"
  let ?p = "\<lambda>x::int. x > 10"
  let ?ef = "\<lambda>x::int. ?e"
  let ?rs = "[Ok (1::int), ?r, Ok 3]"
  note base = Result_invariant_preserved [where v = "1::int" and stk = ?stk
      and f = "\<lambda>x::int. x + 1" and rf = "Ok (\<lambda>x::int. x + 1)"
      and rs = ?rs and res = "Ok (2::int)"
      and h = "\<lambda>t x. Ok x" and k = "\<lambda>t x. Ok 0" and kv = "\<lambda>_. 0" and msg = "''ctx''"
      and e' = ?e and p = ?p and ef = ?ef]
  note T1 = base [where r = ?r and e = ?e and g = ?g]
  note T2 = base [where r = "Ok (1::int)" and e = ?e and g = ?g]
  note T3 = base [where r = ?nil and e = None and g = ?gnil]
  note T4 = base [where r = "Ok (1::int)" and e = None and g = ?gnil]
  have ok: "Result_has_error (Ok (n::int))" for n
    by (simp add: Result_has_error_def Result_sel)
  have err: "Result_has_error ?r"
    by (simp add: Result_has_error_def Result_sel)
  have cb: "Result_has_error (?g (ResultFlatMap_frame # ?stk) (res_value (Ok (1::int))))"
    by (simp add: Result_has_error_def Result_sel)
  have all: "\<forall>x \<in> set ?rs. Result_has_error x"
    using ok err by simp
  have ne: "?e \<noteq> None" by simp
  from T3 have nil: "Result_no_diagnostic ?nil"
    by (elim conjE)
  from T3 have "Result_no_diagnostic ?nil \<longrightarrow>
      Result_no_diagnostic (Result_Recover ?nil (\<lambda>_. 0))
      \<and> Result_no_diagnostic (Result_Wrap ?nil ''ctx'')
      \<and> Result_no_diagnostic (Result_Ensure ?stk ?nil ?e ?p)
      \<and> Result_no_diagnostic (Result_EnsureWith ?stk ?nil ?p ?ef)"
    by (elim conjE)
  with nil have a: "Result_no_diagnostic (Result_Recover ?nil (\<lambda>_. 0))"
    by simp
  have cbnil:
    "Result_no_diagnostic (?gnil (ResultFlatMap_frame # ?stk) (res_value (Ok (1::int))))"
    by (simp add: Result_no_diagnostic_def Result_sel)
  from T4 have
    "Result_no_diagnostic (?gnil (ResultFlatMap_frame # ?stk) (res_value (Ok (1::int))))
      \<longrightarrow> Result_no_diagnostic (ResultFlatMap ?stk (Ok (1::int)) ?gnil)"
    by (elim conjE)
  with cbnil have b: "Result_no_diagnostic (ResultFlatMap ?stk (Ok (1::int)) ?gnil)"
    by (rule rev_mp)
  from T1 have "Result_has_error ?r \<longrightarrow> Result_has_error (ResultMap ?r (\<lambda>x. x + 1))"
    by (elim conjE)
  with err have c: "Result_has_error (ResultMap ?r (\<lambda>x. x + 1))"
    by (rule rev_mp)
  from T1 have "(\<forall>x \<in> set ?rs. Result_has_error x)
      \<longrightarrow> Result_has_error (ResultSequence ?stk ?rs)"
    by (elim conjE)
  with all have d: "Result_has_error (ResultSequence ?stk ?rs)"
    by (rule rev_mp)
  from T2 have "Result_has_error (Ok (1::int))
      \<and> Result_has_error (?g (ResultFlatMap_frame # ?stk) (res_value (Ok (1::int))))
      \<longrightarrow> Result_has_error (ResultFlatMap ?stk (Ok (1::int)) ?g)"
    by (elim conjE)
  with ok [of 1] cb have e: "Result_has_error (ResultFlatMap ?stk (Ok (1::int)) ?g)"
    by simp
  from T2 have "Result_has_error (Ok (1::int)) \<and> ?e \<noteq> None
      \<longrightarrow> Result_has_error (Result_Ensure ?stk (Ok (1::int)) ?e ?p)"
    by (elim conjE)
  with ok [of 1] ne have f: "Result_has_error (Result_Ensure ?stk (Ok (1::int)) ?e ?p)"
    by simp
  show ?thesis
    by (intro conjI) (rule a b c d e f)+
qed

text \<open>
  The claim as the specification words it covers a nil error passed to \<^verbatim>\<open>Err\<close>: the
  Result is failed and its error is nil.
\<close>

theorem Err_nil_counterexample:
  "res_isErr (Err [\<lparr>File = ''main.go'', Line = 10, Function = ''main.run''\<rparr>] None
       :: int Result)
   \<and> res_err (Err [\<lparr>File = ''main.go'', Line = 10, Function = ''main.run''\<rparr>] None
       :: int Result) = None"
  by (simp add: Err_def)

section \<open>Result: the diagnostic of a propagated error\<close>

text \<open>
  C3. For every failed Result \<open>r\<close>, \<^verbatim>\<open>ResultMap\<close>, \<^verbatim>\<open>ResultFlatMap\<close> and
  \<^verbatim>\<open>ResultApply\<close> (with \<open>r\<close> as the value operand, and also with \<open>r\<close> as the function
  operand of a successful value operand) return a failed Result whose diagnostic is the
  diagnostic of \<open>r\<close>; \<^verbatim>\<open>And\<close> and \<^verbatim>\<open>AndThen\<close> return \<open>r\<close> itself. None of them reads
  the call stack: \<open>callers\<close> is not applied, and the function argument, the only user of
  the chain \<open>stk\<close>, is not called. \<^verbatim>\<open>Wrap\<close> returns a failed Result with the diagnostic of
  \<open>r\<close> whose error text is the message, a colon and a space, then the text of the error
  of \<open>r\<close>; on a successful Result it returns the Result unchanged.
\<close>

theorem Result_diagnostic_preserved:
  "(res_isErr r \<longrightarrow>
      res_isErr (ResultMap r f) \<and> res_stack (ResultMap r f) = res_stack r
      \<and> Result_StackTrace (ResultMap r f) = Result_StackTrace r
      \<and> res_isErr (ResultFlatMap stk r g) \<and> res_stack (ResultFlatMap stk r g) = res_stack r
      \<and> Result_StackTrace (ResultFlatMap stk r g) = Result_StackTrace r
      \<and> res_isErr (ResultApply r fn) \<and> res_stack (ResultApply r fn) = res_stack r
      \<and> Result_StackTrace (ResultApply r fn) = Result_StackTrace r
      \<and> Result_And r res = r \<and> Result_AndThen stk r h = r
      \<and> res_isErr (Result_Wrap r msg) \<and> res_stack (Result_Wrap r msg) = res_stack r
      \<and> Result_StackTrace (Result_Wrap r msg) = Result_StackTrace r
      \<and> (\<forall>e. res_err r = Some e \<longrightarrow>
            map_option Error (res_err (Result_Wrap r msg)) = Some (msg @ '': '' @ Error e)))
   \<and> (\<not> res_isErr rv \<and> res_isErr rf \<longrightarrow>
      res_isErr (ResultApply rv rf) \<and> res_stack (ResultApply rv rf) = res_stack rf
      \<and> Result_StackTrace (ResultApply rv rf) = Result_StackTrace rf)
   \<and> (\<not> res_isErr ok \<longrightarrow> Result_Wrap ok msg = ok)"
  by (simp add: ResultMap_def ResultFlatMap_def ResultApply_def Result_And_def Result_AndThen_def
      Result_Wrap_def Result_StackTrace_def Errorf_wrap_def)

theorem Result_diagnostic_preserved_witness:
  "res_stack (ResultMap
       (Err [\<lparr>File = ''main.go'', Line = 10, Function = ''main.run''\<rparr>]
          (Some (errorString ''boom'')) :: int Result) (\<lambda>x. x + 1))
     = ''main.go:10 main.run'' @ [CHR 0x0A]
   \<and> res_stack (ResultFlatMap
       [\<lparr>File = ''main.go'', Line = 50, Function = ''main.main''\<rparr>]
       (Err [\<lparr>File = ''main.go'', Line = 10, Function = ''main.run''\<rparr>]
          (Some (errorString ''boom''))) (middleMethod_func1 (Ok 5)))
     = ''main.go:10 main.run'' @ [CHR 0x0A]
   \<and> res_stack (Result_Wrap
       (Err [\<lparr>File = ''main.go'', Line = 10, Function = ''main.run''\<rparr>]
          (Some (errorString ''boom'')) :: int Result) ''ctx'')
     = ''main.go:10 main.run'' @ [CHR 0x0A]
   \<and> map_option Error (res_err (Result_Wrap
       (Err [\<lparr>File = ''main.go'', Line = 10, Function = ''main.run''\<rparr>]
          (Some (errorString ''boom'')) :: int Result) ''ctx''))
     = Some ''ctx: boom''
   \<and> res_stack (ResultApply (Ok (1::int))
       (Err [\<lparr>File = ''main.go'', Line = 10, Function = ''main.run''\<rparr>]
          (Some (errorString ''boom'')) :: (int \<Rightarrow> int) Result))
     = ''main.go:10 main.run'' @ [CHR 0x0A]
   \<and> Result_Wrap (Ok (1::int)) ''ctx'' = Ok 1"
proof -
  let ?stk = "[\<lparr>File = ''main.go'', Line = 10, Function = ''main.run''\<rparr>]"
  let ?r = "Err ?stk (Some (errorString ''boom'')) :: int Result"
  let ?rf = "Err ?stk (Some (errorString ''boom'')) :: (int \<Rightarrow> int) Result"
  note T = Result_diagnostic_preserved [where r = ?r and f = "\<lambda>x. x + 1"
      and stk = "[\<lparr>File = ''main.go'', Line = 50, Function = ''main.main''\<rparr>]"
      and g = "middleMethod_func1 (Ok 5)" and fn = "Ok (\<lambda>x. x + 1)" and res = "Ok 0"
      and h = "middleMethod_func1 (Ok 5)" and msg = "''ctx''" and rv = "Ok (1::int)" and rf = ?rf
      and ok = "Ok (1::int)"]
  have c: "callers ?stk = ''main.go:10 main.run'' @ [CHR 0x0A]"
    by (simp add: callers_def pcCount_def decimal.simps)
  have a: "res_isErr ?r" "res_err ?r = Some (errorString ''boom'')"
    "res_stack ?r = ''main.go:10 main.run'' @ [CHR 0x0A]"
    "\<not> res_isErr (Ok (1::int))" "res_isErr ?rf"
    "res_stack ?rf = ''main.go:10 main.run'' @ [CHR 0x0A]"
    by (simp_all add: Result_sel c)
  from T a show ?thesis by simp
qed

section \<open>The monad laws\<close>

lemma Option_monad_laws:
  "OptionFlatMap (OptionSome a) f = f a"
  "OptionFlatMap (OptionSome v) OptionSome = OptionSome v"
  "OptionFlatMap OptionNone OptionSome = OptionNone"
  "OptionFlatMap (OptionFlatMap c f) g = OptionFlatMap c (\<lambda>x. OptionFlatMap (f x) g)"
  by (simp_all add: OptionFlatMap_def OptionSome_def OptionNone_def)

lemma Either_monad_laws:
  "EitherFlatMap (Right a) f = f a"
  "EitherFlatMap (Right v) Right = Right v"
  "EitherFlatMap (Left l) Right = Left l"
  "EitherFlatMap (EitherFlatMap c f) g = EitherFlatMap c (\<lambda>x. EitherFlatMap (f x) g)"
  by (simp_all add: EitherFlatMap_def Left_def Right_def)

lemma Reader_monad_laws:
  "Reader_Run (Reader_FlatMap (Reader_Pure a) f) e = Reader_Run (f a) e"
  "Reader_Run (Reader_FlatMap c Reader_Pure) e = Reader_Run c e"
  "Reader_Run (Reader_FlatMap (Reader_FlatMap c f) g) e
     = Reader_Run (Reader_FlatMap c (\<lambda>x. Reader_FlatMap (f x) g)) e"
  by (simp_all add: Reader_Run_def Reader_FlatMap_def Reader_Pure_def Reader_New_def)

lemma State_monad_laws:
  "State_Run (State_FlatMap (State_Pure a) f) s = State_Run (f a) s"
  "State_Run (State_FlatMap c State_Pure) s = State_Run c s"
  "State_Run (State_FlatMap (State_FlatMap c f) g) s
     = State_Run (State_FlatMap c (\<lambda>x. State_FlatMap (f x) g)) s"
  by (simp_all add: State_Run_def State_FlatMap_def State_Pure_def split: prod.splits)

lemma Writer_monad_laws:
  "Monoid_laws m \<Longrightarrow> Writer_Run (Writer_FlatMap (Writer_Pure a m) f) = Writer_Run (f a)"
  "Monoid_laws (writer_monoid c) \<Longrightarrow>
     Writer_Run (Writer_FlatMap c (\<lambda>x. Writer_Pure x (writer_monoid c))) = Writer_Run c"
  "Monoid_laws (writer_monoid c) \<Longrightarrow> \<forall>x. writer_monoid (f x) = writer_monoid c \<Longrightarrow>
     Writer_Run (Writer_FlatMap (Writer_FlatMap c f) g)
       = Writer_Run (Writer_FlatMap c (\<lambda>x. Writer_FlatMap (f x) g))"
  by (simp_all add: Writer_Run_def Writer_FlatMap_def Writer_Pure_def Monoid_laws_def
      split: prod.splits)

lemma Monoid_laws_test_monoids: "Monoid_laws StringMonoid" "Monoid_laws SliceMonoid"
  by (simp_all add: Monoid_laws_def StringMonoid_def SliceMonoid_def)

lemma Result_left_identity:
  "ResultFlatMap stk (Ok a) f = f (ResultFlatMap_frame # stk) a"
  "\<forall>s s'. f s a = f s' a \<Longrightarrow> ResultFlatMap stk (Ok a) f = f stk a"
  "\<forall>s s'. same_but_stack (f s a) (f s' a)
     \<Longrightarrow> same_but_stack (ResultFlatMap stk (Ok a) f) (f stk a)"
  by (simp_all add: ResultFlatMap_def Ok_def)

lemma Result_right_identity:
  "ResultFlatMap stk (Ok v) Ok_fn = Ok v"
  "ResultFlatMap stk (Err stk' e) Ok_fn = Err stk' e"
  "ResultFlatMap stk (FromReturn stk' v None) Ok_fn = FromReturn stk' v None"
  "ResultFlatMap stk (FromReturn stk' default (Some e')) Ok_fn
     = FromReturn stk' default (Some e')"
  "res_isErr c \<Longrightarrow> ResultFlatMap stk c Ok_fn = c \<lparr>res_value := default\<rparr>"
  "\<not> res_isErr c \<Longrightarrow> res_err c = None \<Longrightarrow> res_stack c = [] \<Longrightarrow> ResultFlatMap stk c Ok_fn = c"
  by (simp_all add: ResultFlatMap_def Ok_def Err_def FromReturn_def Ok_fn_def)

lemma FlatMap_closure_eq:
  "FlatMap_closure cl f g = (\<lambda>t x. ResultFlatMap (cl # t) (f (cl # t) x) g)"
  by (intro ext) (simp add: FlatMap_closure_def)

lemma FlatMap_method_closure_eq:
  "FlatMap_method_closure cl f g
     = (\<lambda>t x. ResultFlatMap (Result_FlatMap_frame # cl # t) (f (cl # t) x) g)"
  by (intro ext) (simp add: FlatMap_method_closure_def Result_FlatMap_def)

text \<open>
  Associativity for any chains: \<open>sa\<close>, \<open>sb\<close>, \<open>sc\<close> are the chains of the three outer calls,
  \<open>p t\<close> and \<open>q t\<close> the chains under which the function literal, itself called under \<open>t\<close>,
  calls \<^verbatim>\<open>ResultFlatMap\<close> and \<open>f\<close>.
\<close>

lemma Result_associativity_failed:
  "res_isErr c \<Longrightarrow>
     ResultFlatMap sa (ResultFlatMap sb c f) g
       = ResultFlatMap sc c (\<lambda>t x. ResultFlatMap (p t) (f (q t) x) g)"
  by (simp add: ResultFlatMap_def)

lemma Result_associativity_no_capture:
  assumes "\<forall>t t' x. f t x = f t' x" and "\<forall>t t' y. g t y = g t' y"
  shows "ResultFlatMap sa (ResultFlatMap sb c f) g
       = ResultFlatMap sc c (\<lambda>t x. ResultFlatMap (p t) (f (q t) x) g)"
proof (cases "res_isErr c")
  case True
  then show ?thesis by (rule Result_associativity_failed)
next
  case False
  have f: "f t x = f [] x" for t x
    using assms(1) by blast
  have g: "g t y = g [] y" for t y
    using assms(2) by blast
  from False show ?thesis
    by (simp add: ResultFlatMap_def f [of "_ # _"] f [of "q _"] g [of "_ # _"])
qed

lemma Result_associativity_up_to_stack:
  assumes "\<forall>t t' x. same_but_stack (f t x) (f t' x)"
    and "\<forall>t t' y. same_but_stack (g t y) (g t' y)"
  shows "same_but_stack (ResultFlatMap sa (ResultFlatMap sb c f) g)
       (ResultFlatMap sc c (\<lambda>t x. ResultFlatMap (p t) (f (q t) x) g))"
proof (cases "res_isErr c")
  case True
  then show ?thesis by (simp add: ResultFlatMap_def same_but_stack_def)
next
  case False
  let ?r1 = "f (ResultFlatMap_frame # sb) (res_value c)"
  let ?r2 = "f (q (ResultFlatMap_frame # sc)) (res_value c)"
  have f: "same_but_stack ?r1 ?r2"
    using assms(1) by blast
  have g: "same_but_stack (g (ResultFlatMap_frame # sa) y)
      (g (ResultFlatMap_frame # p (ResultFlatMap_frame # sc)) y)" for y
    using assms(2) by blast
  show ?thesis
  proof (cases "res_isErr ?r1")
    case True
    with False f show ?thesis
      by (simp add: ResultFlatMap_def same_but_stack_def)
  next
    case r1: False
    with f have "\<not> res_isErr ?r2" "res_value ?r2 = res_value ?r1"
      by (simp_all add: same_but_stack_def)
    with False r1 g [of "res_value ?r1"] show ?thesis
      by (simp add: ResultFlatMap_def)
  qed
qed

lemma Result_associativity:
  "res_isErr c \<Longrightarrow>
     ResultFlatMap stk (ResultFlatMap stk c f) g = ResultFlatMap stk c (FlatMap_closure cl f g)"
  by (subst FlatMap_closure_eq)
    (rule Result_associativity_failed [of c stk stk f g stk "\<lambda>t. cl # t" "\<lambda>t. cl # t"])

lemma Result_associativity_exact:
  "\<forall>t t' x. f t x = f t' x \<Longrightarrow> \<forall>t t' y. g t y = g t' y \<Longrightarrow>
     ResultFlatMap stk (ResultFlatMap stk c f) g = ResultFlatMap stk c (FlatMap_closure cl f g)"
  by (subst FlatMap_closure_eq)
    (rule Result_associativity_no_capture [of f g stk stk c stk "\<lambda>t. cl # t" "\<lambda>t. cl # t"])

lemma Result_associativity_stack:
  "\<forall>t t' x. same_but_stack (f t x) (f t' x) \<Longrightarrow> \<forall>t t' y. same_but_stack (g t y) (g t' y) \<Longrightarrow>
     same_but_stack (ResultFlatMap stk (ResultFlatMap stk c f) g)
       (ResultFlatMap stk c (FlatMap_closure cl f g))"
  by (subst FlatMap_closure_eq)
    (rule Result_associativity_up_to_stack [of f g stk stk c stk "\<lambda>t. cl # t" "\<lambda>t. cl # t"])

lemma Result_method_laws:
  "Result_FlatMap stk (Ok a) f = f (ResultFlatMap_frame # Result_FlatMap_frame # stk) a"
  "\<forall>t t'. f t a = f t' a \<Longrightarrow> Result_FlatMap stk (Ok a) f = f stk a"
  "\<forall>t t'. same_but_stack (f t a) (f t' a)
     \<Longrightarrow> same_but_stack (Result_FlatMap stk (Ok a) f) (f stk a)"
  "res_isErr c \<Longrightarrow> Result_FlatMap stk c Ok_fn = c \<lparr>res_value := default\<rparr>"
  "\<not> res_isErr c \<Longrightarrow> res_err c = None \<Longrightarrow> res_stack c = [] \<Longrightarrow> Result_FlatMap stk c Ok_fn = c"
  by (simp_all add: Result_FlatMap_def ResultFlatMap_def Ok_def Ok_fn_def)

lemma Result_method_associativity:
  "res_isErr c \<Longrightarrow>
     Result_FlatMap stk (Result_FlatMap stk c f) g
       = Result_FlatMap stk c (FlatMap_method_closure cl f g)"
  unfolding Result_FlatMap_def
  by (subst FlatMap_method_closure_eq)
    (rule Result_associativity_failed [of c "Result_FlatMap_frame # stk"
      "Result_FlatMap_frame # stk" f g "Result_FlatMap_frame # stk"
      "\<lambda>t. Result_FlatMap_frame # cl # t" "\<lambda>t. cl # t"])

lemma Result_method_associativity_exact:
  "\<forall>t t' x. f t x = f t' x \<Longrightarrow> \<forall>t t' y. g t y = g t' y \<Longrightarrow>
     Result_FlatMap stk (Result_FlatMap stk c f) g
       = Result_FlatMap stk c (FlatMap_method_closure cl f g)"
  unfolding Result_FlatMap_def
  by (subst FlatMap_method_closure_eq)
    (rule Result_associativity_no_capture [of f g "Result_FlatMap_frame # stk"
      "Result_FlatMap_frame # stk" c "Result_FlatMap_frame # stk"
      "\<lambda>t. Result_FlatMap_frame # cl # t" "\<lambda>t. cl # t"])

lemma Result_method_associativity_stack:
  "\<forall>t t' x. same_but_stack (f t x) (f t' x) \<Longrightarrow> \<forall>t t' y. same_but_stack (g t y) (g t' y) \<Longrightarrow>
     same_but_stack (Result_FlatMap stk (Result_FlatMap stk c f) g)
       (Result_FlatMap stk c (FlatMap_method_closure cl f g))"
  unfolding Result_FlatMap_def
  by (subst FlatMap_method_closure_eq)
    (rule Result_associativity_up_to_stack [of f g "Result_FlatMap_frame # stk"
      "Result_FlatMap_frame # stk" c "Result_FlatMap_frame # stk"
      "\<lambda>t. Result_FlatMap_frame # cl # t" "\<lambda>t. cl # t"])

text \<open>
  C8, as amended. Left identity, right identity and associativity of \<^verbatim>\<open>FlatMap\<close> hold
  for Option, Either, Reader and State (Reader and State compared by their Run results).
  For Writer, compared by Run results, they hold when the monoid satisfies the monoid laws
  and, for associativity, every Writer the first function returns carries the monoid of
  the first Writer. For Result, with the free function \<^verbatim>\<open>ResultFlatMap\<close> and with the
  method \<^verbatim>\<open>Result.FlatMap\<close> alike: \<^verbatim>\<open>Ok(a).FlatMap(f)\<close> is \<open>f a\<close> run under the frames
  of the library; it equals \<open>f a\<close> called directly when \<open>f\<close> reads no call stack, and
  agrees with it in everything but the diagnostic when the call stack reaches the result
  of \<open>f\<close> through the diagnostic only. Associativity holds exactly for a failed \<open>c\<close> and for
  functions that read no call stack, and in everything but the diagnostic for functions
  whose result depends on the call stack through the diagnostic only. Right identity
  holds for every Result built by \<^verbatim>\<open>Ok\<close> or \<^verbatim>\<open>Err\<close>, by \<^verbatim>\<open>FromReturn\<close> with a nil error
  or with the zero value, and for every successful Result without error and diagnostic;
  for a failed Result in general \<^verbatim>\<open>c.FlatMap(Ok)\<close> is \<open>c\<close> with the value reset to the
  zero value.
\<close>

theorem monad_laws:
  "OptionFlatMap (OptionSome a_opt) f_opt = f_opt a_opt
   \<and> OptionFlatMap (OptionSome v_opt) OptionSome = OptionSome v_opt
   \<and> OptionFlatMap OptionNone OptionSome = (OptionNone :: ('t1::default) Option)
   \<and> OptionFlatMap (OptionFlatMap c_opt f_opt) g_opt
        = OptionFlatMap c_opt (\<lambda>x. OptionFlatMap (f_opt x) g_opt)
   \<and> EitherFlatMap (Right a_eit) f_eit = f_eit a_eit
   \<and> EitherFlatMap (Right v_eit) Right = Right v_eit
   \<and> EitherFlatMap (Left l_eit) Right = Left l_eit
   \<and> EitherFlatMap (EitherFlatMap c_eit f_eit) g_eit
        = EitherFlatMap c_eit (\<lambda>x. EitherFlatMap (f_eit x) g_eit)
   \<and> Reader_Run (Reader_FlatMap (Reader_Pure a_rd) f_rd) env = Reader_Run (f_rd a_rd) env
   \<and> Reader_Run (Reader_FlatMap c_rd Reader_Pure) env = Reader_Run c_rd env
   \<and> Reader_Run (Reader_FlatMap (Reader_FlatMap c_rd f_rd) g_rd) env
        = Reader_Run (Reader_FlatMap c_rd (\<lambda>x. Reader_FlatMap (f_rd x) g_rd)) env
   \<and> State_Run (State_FlatMap (State_Pure a_st) f_st) s = State_Run (f_st a_st) s
   \<and> State_Run (State_FlatMap c_st State_Pure) s = State_Run c_st s
   \<and> State_Run (State_FlatMap (State_FlatMap c_st f_st) g_st) s
        = State_Run (State_FlatMap c_st (\<lambda>x. State_FlatMap (f_st x) g_st)) s
   \<and> (Monoid_laws m \<longrightarrow>
        Writer_Run (Writer_FlatMap (Writer_Pure a_wr m) f_wr) = Writer_Run (f_wr a_wr))
   \<and> (Monoid_laws (writer_monoid c_wr) \<longrightarrow>
        Writer_Run (Writer_FlatMap c_wr (\<lambda>x. Writer_Pure x (writer_monoid c_wr)))
          = Writer_Run c_wr)
   \<and> (Monoid_laws (writer_monoid c_wr) \<and> (\<forall>x. writer_monoid (f_wr x) = writer_monoid c_wr)
        \<longrightarrow> Writer_Run (Writer_FlatMap (Writer_FlatMap c_wr f_wr) g_wr)
          = Writer_Run (Writer_FlatMap c_wr (\<lambda>x. Writer_FlatMap (f_wr x) g_wr)))
   \<and> ResultFlatMap stk (Ok a_res) f_res = f_res (ResultFlatMap_frame # stk) a_res
   \<and> ((\<forall>t t'. f_res t a_res = f_res t' a_res)
        \<longrightarrow> ResultFlatMap stk (Ok a_res) f_res = f_res stk a_res)
   \<and> ((\<forall>t t'. same_but_stack (f_res t a_res) (f_res t' a_res))
        \<longrightarrow> same_but_stack (ResultFlatMap stk (Ok a_res) f_res) (f_res stk a_res))
   \<and> ResultFlatMap stk (Ok v_res) Ok_fn = Ok v_res
   \<and> ResultFlatMap stk (Err stk' e_res) Ok_fn = (Err stk' e_res :: ('t2::default) Result)
   \<and> ResultFlatMap stk (FromReturn stk' v_res None) Ok_fn = FromReturn stk' v_res None
   \<and> ResultFlatMap stk (FromReturn stk' default (Some e_res')) Ok_fn
        = (FromReturn stk' default (Some e_res') :: 't2 Result)
   \<and> (res_isErr c_res
        \<longrightarrow> ResultFlatMap stk c_res Ok_fn = c_res \<lparr>res_value := default\<rparr>)
   \<and> (\<not> res_isErr c_res \<and> res_err c_res = None \<and> res_stack c_res = []
        \<longrightarrow> ResultFlatMap stk c_res Ok_fn = c_res)
   \<and> (res_isErr c_res
        \<longrightarrow> ResultFlatMap stk (ResultFlatMap stk c_res f_res) g_res
          = ResultFlatMap stk c_res (FlatMap_closure cl f_res g_res))
   \<and> ((\<forall>t t' x. f_res t x = f_res t' x) \<and> (\<forall>t t' y. g_res t y = g_res t' y)
        \<longrightarrow> ResultFlatMap stk (ResultFlatMap stk c_res f_res) g_res
          = ResultFlatMap stk c_res (FlatMap_closure cl f_res g_res))
   \<and> ((\<forall>t t' x. same_but_stack (f_res t x) (f_res t' x))
        \<and> (\<forall>t t' y. same_but_stack (g_res t y) (g_res t' y))
        \<longrightarrow> same_but_stack (ResultFlatMap stk (ResultFlatMap stk c_res f_res) g_res)
          (ResultFlatMap stk c_res (FlatMap_closure cl f_res g_res)))
   \<and> Result_FlatMap stk (Ok a_m) f_m
        = f_m (ResultFlatMap_frame # Result_FlatMap_frame # stk) a_m
   \<and> ((\<forall>t t'. f_m t a_m = f_m t' a_m) \<longrightarrow> Result_FlatMap stk (Ok a_m) f_m = f_m stk a_m)
   \<and> ((\<forall>t t'. same_but_stack (f_m t a_m) (f_m t' a_m))
        \<longrightarrow> same_but_stack (Result_FlatMap stk (Ok a_m) f_m) (f_m stk a_m))
   \<and> (res_isErr c_m \<longrightarrow> Result_FlatMap stk c_m Ok_fn = c_m \<lparr>res_value := default\<rparr>)
   \<and> (\<not> res_isErr c_m \<and> res_err c_m = None \<and> res_stack c_m = []
        \<longrightarrow> Result_FlatMap stk c_m Ok_fn = c_m)
   \<and> (res_isErr c_m
        \<longrightarrow> Result_FlatMap stk (Result_FlatMap stk c_m f_m) g_m
          = Result_FlatMap stk c_m (FlatMap_method_closure cl f_m g_m))
   \<and> ((\<forall>t t' x. f_m t x = f_m t' x) \<and> (\<forall>t t' y. g_m t y = g_m t' y)
        \<longrightarrow> Result_FlatMap stk (Result_FlatMap stk c_m f_m) g_m
          = Result_FlatMap stk c_m (FlatMap_method_closure cl f_m g_m))
   \<and> ((\<forall>t t' x. same_but_stack (f_m t x) (f_m t' x))
        \<and> (\<forall>t t' y. same_but_stack (g_m t y) (g_m t' y))
        \<longrightarrow> same_but_stack (Result_FlatMap stk (Result_FlatMap stk c_m f_m) g_m)
          (Result_FlatMap stk c_m (FlatMap_method_closure cl f_m g_m)))"
proof -
  note opt = Option_monad_laws and eit = Either_monad_laws and rd = Reader_monad_laws
    and st = State_monad_laws and wr = Writer_monad_laws
    and li = Result_left_identity and ri = Result_right_identity
    and ml = Result_method_laws
  show ?thesis
    by (intro conjI impI)
      (simp_all add: Ok_fn_def opt eit rd st wr li(1) ri(1,2,3,4)
        li(2) [of f_res a_res stk] li(3) [of f_res a_res stk]
        ri(5) [of c_res stk] ri(6) [of c_res stk]
        Result_associativity [of c_res stk f_res g_res cl]
        Result_associativity_exact [of f_res g_res stk c_res cl]
        Result_associativity_stack [of f_res g_res stk c_res cl]
        ml(1) ml(2) [of f_m a_m stk] ml(3) [of f_m a_m stk]
        ml(4) [of c_m stk] ml(5) [of c_m stk]
        Result_method_associativity [of c_m stk f_m g_m cl]
        Result_method_associativity_exact [of f_m g_m stk c_m cl]
        Result_method_associativity_stack [of f_m g_m stk c_m cl])
qed

theorem monad_laws_witness:
  "Writer_Run (Writer_FlatMap (Writer_Pure (1::int) StringMonoid)
       (\<lambda>x. Writer_TellWithValue (x + 1) ''ab'' StringMonoid)) = (2, ''ab'')
   \<and> Writer_Run (Writer_FlatMap (Writer_TellWithValue (1::int) ''ab'' StringMonoid)
       (\<lambda>x. Writer_Pure x StringMonoid)) = (1, ''ab'')
   \<and> Writer_Run (Writer_FlatMap (Writer_FlatMap (Writer_TellWithValue (1::int) ''ab'' StringMonoid)
         (\<lambda>x. Writer_TellWithValue (x + 1) ''cd'' StringMonoid))
       (\<lambda>x. Writer_TellWithValue (x * 5) ''ef'' StringMonoid))
     = Writer_Run (Writer_FlatMap (Writer_TellWithValue (1::int) ''ab'' StringMonoid)
         (\<lambda>x. Writer_FlatMap (Writer_TellWithValue (x + 1) ''cd'' StringMonoid)
            (\<lambda>x. Writer_TellWithValue (x * 5) ''ef'' StringMonoid)))
   \<and> ResultFlatMap [\<lparr>File = ''main.go'', Line = 10, Function = ''main.run''\<rparr>]
       (Err [\<lparr>File = ''main.go'', Line = 10, Function = ''main.run''\<rparr>]
          (Some (errorString ''boom''))) Ok_fn
     = (Err [\<lparr>File = ''main.go'', Line = 10, Function = ''main.run''\<rparr>]
          (Some (errorString ''boom'')) :: int Result)
   \<and> ResultFlatMap [\<lparr>File = ''main.go'', Line = 10, Function = ''main.run''\<rparr>]
       (Ok (1::int)) (\<lambda>_ x. Ok (x + 1)) = Ok 2
   \<and> same_but_stack
       (ResultFlatMap [\<lparr>File = ''main.go'', Line = 10, Function = ''main.run''\<rparr>]
          (Ok (1::int))
          (\<lambda>t x. Err (\<lparr>File = ''main.go'', Line = 20, Function = ''main.f''\<rparr> # t)
             (Some (errorString ''boom'')) :: int Result))
       (Err [\<lparr>File = ''main.go'', Line = 20, Function = ''main.f''\<rparr>,
             \<lparr>File = ''main.go'', Line = 10, Function = ''main.run''\<rparr>]
          (Some (errorString ''boom'')))
   \<and> same_but_stack
       (ResultFlatMap [\<lparr>File = ''main.go'', Line = 10, Function = ''main.run''\<rparr>]
          (ResultFlatMap [\<lparr>File = ''main.go'', Line = 10, Function = ''main.run''\<rparr>]
             (Ok (1::int))
             (\<lambda>t x. if x < 0
                then Err (\<lparr>File = ''main.go'', Line = 20, Function = ''main.f''\<rparr> # t)
                  (Some (errorString ''boom''))
                else Ok (x + 1)))
          (\<lambda>t y. Err (\<lparr>File = ''main.go'', Line = 30, Function = ''main.g''\<rparr> # t)
             (Some (errorString ''bang'')) :: int Result))
       (ResultFlatMap [\<lparr>File = ''main.go'', Line = 10, Function = ''main.run''\<rparr>]
          (Ok (1::int))
          (\<lambda>t x. ResultFlatMap
             (\<lparr>File = ''main.go'', Line = 40, Function = ''main.run.func1''\<rparr> # t)
             (if x < 0
                then Err (\<lparr>File = ''main.go'', Line = 20, Function = ''main.f''\<rparr>
                    # \<lparr>File = ''main.go'', Line = 40, Function = ''main.run.func1''\<rparr> # t)
                  (Some (errorString ''boom''))
                else Ok (x + 1))
             (\<lambda>t y. Err (\<lparr>File = ''main.go'', Line = 30, Function = ''main.g''\<rparr> # t)
                (Some (errorString ''bang'')) :: int Result)))
   \<and> same_but_stack
       (Result_FlatMap [\<lparr>File = ''main.go'', Line = 10, Function = ''main.run''\<rparr>]
          (Ok 5) (middleMethod_func1 (Ok 5)))
       (middleMethod_func1 (Ok 5)
          [\<lparr>File = ''main.go'', Line = 10, Function = ''main.run''\<rparr>] 5)
   \<and> same_but_stack
       (Result_FlatMap [\<lparr>File = ''main.go'', Line = 10, Function = ''main.run''\<rparr>]
          (Result_FlatMap [\<lparr>File = ''main.go'', Line = 10, Function = ''main.run''\<rparr>]
             (Ok 5) Ok_fn)
          (middleMethod_func1 (Ok 5)))
       (Result_FlatMap [\<lparr>File = ''main.go'', Line = 10, Function = ''main.run''\<rparr>]
          (Ok 5)
          (FlatMap_method_closure
             \<lparr>File = ''main.go'', Line = 40, Function = ''main.run.func1''\<rparr>
             Ok_fn (middleMethod_func1 (Ok 5))))"
proof -
  let ?w = "Writer_TellWithValue (1::int) ''ab'' StringMonoid"
  let ?f = "\<lambda>x::int. Writer_TellWithValue (x + 1) ''cd'' StringMonoid"
  let ?g = "\<lambda>x::int. Writer_TellWithValue (x * 5) ''ef'' StringMonoid"
  let ?stk = "[\<lparr>File = ''main.go'', Line = 10, Function = ''main.run''\<rparr>]"
  let ?cl = "\<lparr>File = ''main.go'', Line = 40, Function = ''main.run.func1''\<rparr>"
  let ?e = "Some (errorString ''boom'')"
  let ?r = "Err ?stk ?e :: int Result"
  let ?fe = "\<lambda>t (x::int). Err (\<lparr>File = ''main.go'', Line = 20, Function = ''main.f''\<rparr> # t)
      ?e :: int Result"
  let ?fr = "\<lambda>t (x::int). if x < 0
      then Err (\<lparr>File = ''main.go'', Line = 20, Function = ''main.f''\<rparr> # t) ?e
      else Ok (x + 1)"
  let ?gr = "\<lambda>t (y::int). Err (\<lparr>File = ''main.go'', Line = 30, Function = ''main.g''\<rparr> # t)
      (Some (errorString ''bang'')) :: int Result"
  let ?fok = "\<lambda>(t::Frame list) (x::int). Ok (x + 1)"
  let ?mm = "middleMethod_func1 (Ok 5)"
  have m: "writer_monoid ?w = StringMonoid" "\<And>x. writer_monoid (?f x) = StringMonoid"
    by (simp_all add: Writer_TellWithValue_def)
  have laws: "Monoid_laws StringMonoid"
    by (simp add: Monoid_laws_test_monoids)
  have lawsw: "Monoid_laws (writer_monoid ?w)"
    by (simp add: m laws)
  have same: "\<forall>x. writer_monoid (?f x) = writer_monoid ?w"
    by (simp add: m)
  have cap1: "\<forall>t t'. same_but_stack (?fe t 1) (?fe t' 1)"
    by (simp add: same_but_stack_def Err_def)
  have cap2: "\<forall>t t' x. same_but_stack (?fr t x) (?fr t' x)"
    by (simp add: same_but_stack_def Err_def Ok_def)
  have cap3: "\<forall>t t' y. same_but_stack (?gr t y) (?gr t' y)"
    by (simp add: same_but_stack_def Err_def)
  have nocap: "\<forall>t t'. ?fok t 1 = ?fok t' 1"
    by simp
  have capm1: "\<forall>t t'. same_but_stack (?mm t 5) (?mm t' 5)"
    by (simp add: same_but_stack_def middleMethod_func1_def bottomMethod_def Err_def)
  have capm2: "\<forall>t t' y. same_but_stack (?mm t y) (?mm t' y)"
    by (simp add: same_but_stack_def middleMethod_func1_def bottomMethod_def Err_def)
  have capm3: "\<forall>t t' (x::int). same_but_stack (Ok_fn t x) (Ok_fn t' x)"
    by (simp add: same_but_stack_def Ok_fn_def)
  note inst = monad_laws [where a_opt = "1::int" and f_opt = OptionSome and v_opt = "1::int"
      and c_opt = "OptionSome (1::int)" and g_opt = OptionSome
      and a_eit = "1::int" and f_eit = "Right :: int \<Rightarrow> (int, int) Either" and v_eit = "1::int"
      and l_eit = "1::int" and c_eit = "Left 1 :: (int, int) Either"
      and g_eit = "Right :: int \<Rightarrow> (int, int) Either"
      and a_rd = "1::int" and f_rd = "Reader_Pure :: int \<Rightarrow> (int, int) Reader" and env = "0::int"
      and c_rd = "Reader_Ask :: (int, int) Reader"
      and g_rd = "Reader_Pure :: int \<Rightarrow> (int, int) Reader"
      and a_st = "1::int" and f_st = "State_Pure :: int \<Rightarrow> (int, int) State" and s = "0::int"
      and c_st = "State_Get :: (int, int) State"
      and g_st = "State_Pure :: int \<Rightarrow> (int, int) State"
      and m = StringMonoid and a_wr = "1::int" and c_wr = ?w and g_wr = ?g
      and stk = ?stk and stk' = ?stk and cl = ?cl and a_res = "1::int" and v_res = "1::int"
      and e_res = ?e and e_res' = "errorString ''boom''"
      and a_m = "5::int" and c_m = "Ok (5::int)" and g_m = ?mm]
  note W1 = inst [where f_wr = "\<lambda>x. Writer_TellWithValue (x + 1) ''ab'' StringMonoid"
      and f_res = ?fok and g_res = ?gr and c_res = ?r and f_m = Ok_fn]
  note W2 = inst [where f_wr = ?f and f_res = ?fe and g_res = ?gr and c_res = ?r
      and f_m = ?mm]
  note W3 = inst [where f_wr = ?f and f_res = ?fr and g_res = ?gr and c_res = "Ok (1::int)"
      and f_m = Ok_fn]
  from W1 have "Monoid_laws StringMonoid \<longrightarrow>
      Writer_Run (Writer_FlatMap (Writer_Pure (1::int) StringMonoid)
        (\<lambda>x. Writer_TellWithValue (x + 1) ''ab'' StringMonoid))
      = Writer_Run (Writer_TellWithValue (1 + 1 :: int) ''ab'' StringMonoid)"
    by (elim conjE)
  with laws have a:
    "Writer_Run (Writer_FlatMap (Writer_Pure (1::int) StringMonoid)
       (\<lambda>x. Writer_TellWithValue (x + 1) ''ab'' StringMonoid))
     = Writer_Run (Writer_TellWithValue (1 + 1 :: int) ''ab'' StringMonoid)"
    by (rule rev_mp)
  from W1 have "Monoid_laws (writer_monoid ?w) \<longrightarrow>
      Writer_Run (Writer_FlatMap ?w (\<lambda>x. Writer_Pure x (writer_monoid ?w))) = Writer_Run ?w"
    by (elim conjE)
  with lawsw have b:
    "Writer_Run (Writer_FlatMap ?w (\<lambda>x. Writer_Pure x (writer_monoid ?w))) = Writer_Run ?w"
    by (rule rev_mp)
  from W2 have "Monoid_laws (writer_monoid ?w) \<and> (\<forall>x. writer_monoid (?f x) = writer_monoid ?w)
      \<longrightarrow> Writer_Run (Writer_FlatMap (Writer_FlatMap ?w ?f) ?g)
        = Writer_Run (Writer_FlatMap ?w (\<lambda>x. Writer_FlatMap (?f x) ?g))"
    by (elim conjE)
  with lawsw same have c:
    "Writer_Run (Writer_FlatMap (Writer_FlatMap ?w ?f) ?g)
     = Writer_Run (Writer_FlatMap ?w (\<lambda>x. Writer_FlatMap (?f x) ?g))"
    by simp
  from W1 have d: "ResultFlatMap ?stk ?r Ok_fn = ?r"
    by (elim conjE)
  from W1 have "(\<forall>t t'. ?fok t 1 = ?fok t' 1) \<longrightarrow> ResultFlatMap ?stk (Ok (1::int)) ?fok = ?fok ?stk 1"
    by (elim conjE)
  with nocap have e: "ResultFlatMap ?stk (Ok (1::int)) ?fok = ?fok ?stk 1"
    by (rule rev_mp)
  from W2 have "(\<forall>t t'. same_but_stack (?fe t 1) (?fe t' 1))
      \<longrightarrow> same_but_stack (ResultFlatMap ?stk (Ok (1::int)) ?fe) (?fe ?stk 1)"
    by (elim conjE)
  with cap1 have f: "same_but_stack (ResultFlatMap ?stk (Ok (1::int)) ?fe) (?fe ?stk 1)"
    by (rule rev_mp)
  from W3 have "(\<forall>t t' x. same_but_stack (?fr t x) (?fr t' x))
      \<and> (\<forall>t t' y. same_but_stack (?gr t y) (?gr t' y))
      \<longrightarrow> same_but_stack (ResultFlatMap ?stk (ResultFlatMap ?stk (Ok (1::int)) ?fr) ?gr)
        (ResultFlatMap ?stk (Ok (1::int)) (FlatMap_closure ?cl ?fr ?gr))"
    by (elim conjE)
  with cap2 cap3 have g:
    "same_but_stack (ResultFlatMap ?stk (ResultFlatMap ?stk (Ok (1::int)) ?fr) ?gr)
       (ResultFlatMap ?stk (Ok (1::int)) (FlatMap_closure ?cl ?fr ?gr))"
    by simp
  from W2 have "(\<forall>t t'. same_but_stack (?mm t 5) (?mm t' 5))
      \<longrightarrow> same_but_stack (Result_FlatMap ?stk (Ok 5) ?mm) (?mm ?stk 5)"
    by (elim conjE)
  with capm1 have h: "same_but_stack (Result_FlatMap ?stk (Ok 5) ?mm) (?mm ?stk 5)"
    by (rule rev_mp)
  from W3 have "(\<forall>t t' (x::int). same_but_stack (Ok_fn t x) (Ok_fn t' x))
      \<and> (\<forall>t t' y. same_but_stack (?mm t y) (?mm t' y))
      \<longrightarrow> same_but_stack (Result_FlatMap ?stk (Result_FlatMap ?stk (Ok 5) Ok_fn) ?mm)
        (Result_FlatMap ?stk (Ok 5) (FlatMap_method_closure ?cl Ok_fn ?mm))"
    by (elim conjE)
  with capm2 capm3 have k:
    "same_but_stack (Result_FlatMap ?stk (Result_FlatMap ?stk (Ok 5) Ok_fn) ?mm)
       (Result_FlatMap ?stk (Ok 5) (FlatMap_method_closure ?cl Ok_fn ?mm))"
    by simp
  have run: "Writer_Run (Writer_TellWithValue v out mo) = (v, out)"
    for v :: int and out :: string and mo
    by (simp add: Writer_Run_def Writer_TellWithValue_def)
  have a': "Writer_Run (Writer_FlatMap (Writer_Pure (1::int) StringMonoid)
       (\<lambda>x. Writer_TellWithValue (x + 1) ''ab'' StringMonoid)) = (2, ''ab'')"
    using a by (simp add: run)
  have b': "Writer_Run (Writer_FlatMap ?w (\<lambda>x. Writer_Pure x StringMonoid)) = (1, ''ab'')"
    using b by (simp add: run m)
  have e': "ResultFlatMap ?stk (Ok (1::int)) (\<lambda>_ x. Ok (x + 1)) = Ok 2"
    using e by simp
  have g': "same_but_stack (ResultFlatMap ?stk (ResultFlatMap ?stk (Ok (1::int)) ?fr) ?gr)
      (ResultFlatMap ?stk (Ok (1::int))
         (\<lambda>t x. ResultFlatMap (?cl # t) (?fr (?cl # t) x) ?gr))"
    using g by (subst (asm) FlatMap_closure_eq)
  show ?thesis
    by (intro conjI) (rule a' b' c d e' f g' h k)+
qed

text \<open>
  The claim as the specification words it fails for Result in each law. Right identity:
  \<^verbatim>\<open>FromReturn(5, err)\<close> keeps 5, \<^verbatim>\<open>FlatMap\<close> drops it, and \<^verbatim>\<open>ToReturn\<close> shows the
  difference. Left identity: in the Stack program, \<^verbatim>\<open>Ok(5).FlatMap\<close> of the function
  literal of \<^verbatim>\<open>middleMethod\<close> records the two frames of the library, the literal called
  directly from the same place does not. Associativity: the two sides call the literal
  under different chains.
\<close>

theorem Result_monad_laws_counterexample:
  "Result_FlatMap [\<lparr>File = ''main.go'', Line = 12, Function = ''main.main''\<rparr>]
       (FromReturn [\<lparr>File = ''main.go'', Line = 12, Function = ''main.main''\<rparr>] (5::int)
          (Some (errorString ''boom''))) Ok_fn
     \<noteq> FromReturn [\<lparr>File = ''main.go'', Line = 12, Function = ''main.main''\<rparr>] 5
          (Some (errorString ''boom''))
   \<and> Result_ToReturn
       (FromReturn [\<lparr>File = ''main.go'', Line = 12, Function = ''main.main''\<rparr>] (5::int)
          (Some (errorString ''boom'')))
     = (5, Some (errorString ''boom''))
   \<and> Result_ToReturn
       (Result_FlatMap [\<lparr>File = ''main.go'', Line = 12, Function = ''main.main''\<rparr>]
          (FromReturn [\<lparr>File = ''main.go'', Line = 12, Function = ''main.main''\<rparr>] (5::int)
             (Some (errorString ''boom''))) Ok_fn)
     = (0, Some (errorString ''boom''))
   \<and> Result_StackTrace
       (Result_FlatMap
          [\<lparr>File = ''main.go'', Line = 21, Function = ''main.middleMethod''\<rparr>,
           \<lparr>File = ''main.go'', Line = 17, Function = ''main.topMethod''\<rparr>,
           \<lparr>File = ''main.go'', Line = 12, Function = ''main.main''\<rparr>]
          (Ok 5) (middleMethod_func1 (Ok 5)))
     = ''main.go:27 main.bottomMethod'' @ [CHR 0x0A]
       @ ''main.go:22 main.middleMethod.func1'' @ [CHR 0x0A]
       @ ''result.go:128 gofp.ResultFlatMap'' @ [CHR 0x0A]
       @ ''result.go:40 gofp.Result.FlatMap'' @ [CHR 0x0A]
       @ ''main.go:21 main.middleMethod'' @ [CHR 0x0A]
       @ ''main.go:17 main.topMethod'' @ [CHR 0x0A]
       @ ''main.go:12 main.main'' @ [CHR 0x0A]
   \<and> Result_StackTrace
       (middleMethod_func1 (Ok 5)
          [\<lparr>File = ''main.go'', Line = 21, Function = ''main.middleMethod''\<rparr>,
           \<lparr>File = ''main.go'', Line = 17, Function = ''main.topMethod''\<rparr>,
           \<lparr>File = ''main.go'', Line = 12, Function = ''main.main''\<rparr>]
          5)
     = ''main.go:27 main.bottomMethod'' @ [CHR 0x0A]
       @ ''main.go:22 main.middleMethod.func1'' @ [CHR 0x0A]
       @ ''main.go:21 main.middleMethod'' @ [CHR 0x0A]
       @ ''main.go:17 main.topMethod'' @ [CHR 0x0A]
       @ ''main.go:12 main.main'' @ [CHR 0x0A]
   \<and> Result_StackTrace
       (Result_FlatMap [\<lparr>File = ''main.go'', Line = 12, Function = ''main.main''\<rparr>]
          (Result_FlatMap [\<lparr>File = ''main.go'', Line = 12, Function = ''main.main''\<rparr>]
             (Ok 5) Ok_fn)
          (middleMethod_func1 (Ok 5)))
     = ''main.go:27 main.bottomMethod'' @ [CHR 0x0A]
       @ ''main.go:22 main.middleMethod.func1'' @ [CHR 0x0A]
       @ ''result.go:128 gofp.ResultFlatMap'' @ [CHR 0x0A]
       @ ''result.go:40 gofp.Result.FlatMap'' @ [CHR 0x0A]
       @ ''main.go:12 main.main'' @ [CHR 0x0A]
   \<and> Result_StackTrace
       (Result_FlatMap [\<lparr>File = ''main.go'', Line = 12, Function = ''main.main''\<rparr>]
          (Ok 5)
          (FlatMap_method_closure \<lparr>File = ''main.go'', Line = 13, Function = ''main.main.func1''\<rparr>
             Ok_fn (middleMethod_func1 (Ok 5))))
     = ''main.go:27 main.bottomMethod'' @ [CHR 0x0A]
       @ ''main.go:22 main.middleMethod.func1'' @ [CHR 0x0A]
       @ ''result.go:128 gofp.ResultFlatMap'' @ [CHR 0x0A]
       @ ''result.go:40 gofp.Result.FlatMap'' @ [CHR 0x0A]
       @ ''main.go:13 main.main.func1'' @ [CHR 0x0A]
       @ ''result.go:128 gofp.ResultFlatMap'' @ [CHR 0x0A]
       @ ''result.go:40 gofp.Result.FlatMap'' @ [CHR 0x0A]
       @ ''main.go:12 main.main'' @ [CHR 0x0A]"
  by (simp add: Result_FlatMap_def ResultFlatMap_def FromReturn_def Ok_def Err_def
      Result_ToReturn_def Result_StackTrace_def default_int_def callers_def pcCount_def
      decimal.simps ResultFlatMap_frame_def Result_FlatMap_frame_def Ok_fn_def
      FlatMap_method_closure_def middleMethod_func1_def bottomMethod_def)

end
